theory Spec2Isabelle
  imports Complex_Main
begin

section \<open>JavaScript strings\<close>

text \<open>
  A JavaScript string is a sequence of code units. The model uses \<^typ>\<open>string\<close>, so it
  covers the strings whose code units are below 256 (ASCII and Latin-1); every character
  the parser and the exporters test for lies in that range.
\<close>

abbreviation dquote :: char where "dquote \<equiv> CHR 0x22"
abbreviation newline :: char where "newline \<equiv> CHR 0x0A"
abbreviation comma :: char where "comma \<equiv> CHR '',''"
abbreviation pipe :: char where "pipe \<equiv> CHR ''|''"

text \<open>White space and line terminators of ECMAScript below code unit 256: what
  \<^verbatim>\<open>trim()\<close> removes and what the regular expression class \<^verbatim>\<open>\s\<close> matches.\<close>

definition isWhiteSpace :: "char \<Rightarrow> bool" where
  "isWhiteSpace c \<longleftrightarrow>
     c = CHR 0x09 \<or> c = CHR 0x0A \<or> c = CHR 0x0B \<or> c = CHR 0x0C \<or> c = CHR 0x0D
     \<or> c = CHR 0x20 \<or> c = CHR 0xA0"

text \<open>\<^verbatim>\<open>s.trim()\<close>\<close>

definition trim :: "string \<Rightarrow> string" where
  "trim s = rev (dropWhile isWhiteSpace (rev (dropWhile isWhiteSpace s)))"

text \<open>\<^verbatim>\<open>s.startsWith(p)\<close>\<close>

fun startsWith :: "string \<Rightarrow> string \<Rightarrow> bool" where
  "startsWith s [] = True"
| "startsWith [] (p # ps) = False"
| "startsWith (c # cs) (p # ps) = (c = p \<and> startsWith cs ps)"

text \<open>\<^verbatim>\<open>s.includes(p)\<close>: \<open>p\<close> occurs in \<open>s\<close> as a contiguous substring.\<close>

fun includesStr :: "string \<Rightarrow> string \<Rightarrow> bool" where
  "includesStr [] p = (p = [])"
| "includesStr (c # cs) p = (startsWith (c # cs) p \<or> includesStr cs p)"

text \<open>\<^verbatim>\<open>s.split(d)\<close> for a one-character separator \<open>d\<close>: never empty, \<^verbatim>\<open>''.split(d)\<close> is
  \<^verbatim>\<open>['']\<close>.\<close>

fun splitOn :: "char \<Rightarrow> string \<Rightarrow> string list" where
  "splitOn d [] = [[]]"
| "splitOn d (c # cs) =
     (if c = d then [] # splitOn d cs
      else (case splitOn d cs of [] \<Rightarrow> [[c]] | p # ps \<Rightarrow> (c # p) # ps))"

text \<open>\<^verbatim>\<open>parts.join(sep)\<close>\<close>

fun joinWith :: "string \<Rightarrow> string list \<Rightarrow> string" where
  "joinWith sep [] = []"
| "joinWith sep [p] = p"
| "joinWith sep (p # q # ps) = p @ sep @ joinWith sep (q # ps)"

text \<open>\<^verbatim>\<open>s.toLowerCase()\<close> on code units below 256: the letters A-Z, and the Latin-1 capitals
  0xC0-0xDE without the multiplication sign 0xD7, move up by 0x20.\<close>

definition lowerChar :: "char \<Rightarrow> char" where
  "lowerChar c =
     (let n = of_char c :: nat in
      if (0x41 \<le> n \<and> n \<le> 0x5A) \<or> (0xC0 \<le> n \<and> n \<le> 0xDE \<and> n \<noteq> 0xD7)
      then char_of (n + 0x20) else c)"

definition toLowerCase :: "string \<Rightarrow> string" where
  "toLowerCase s = map lowerChar s"

section \<open>csvParser.js: the line tokenizer\<close>

text \<open>
  The \<^verbatim>\<open>while (i < line.length)\<close> loop of \<^verbatim>\<open>parseCSVLine\<close>. The first argument is the
  unread part \<^verbatim>\<open>line.slice(i)\<close>: its head is \<^verbatim>\<open>char\<close>, the head of its tail is
  \<^verbatim>\<open>nextChar\<close> (\<^verbatim>\<open>undefined\<close>, so different from a quote, when the tail is empty).
  Leaving the loop pushes the last field.
\<close>

function parseCSVLine_loop :: "string \<Rightarrow> string list \<Rightarrow> string \<Rightarrow> bool \<Rightarrow> string list" where
  "parseCSVLine_loop [] result current inQuotes = result @ [trim current]"
| "parseCSVLine_loop (char # rest) result current inQuotes =
     (if char = dquote then
        (if inQuotes \<and> (case rest of [] \<Rightarrow> False | nextChar # _ \<Rightarrow> nextChar = dquote)
         then parseCSVLine_loop (tl rest) result (current @ [dquote]) inQuotes
         else parseCSVLine_loop rest result current (\<not> inQuotes))
      else if char = comma \<and> \<not> inQuotes
      then parseCSVLine_loop rest (result @ [trim current]) [] inQuotes
      else parseCSVLine_loop rest result (current @ [char]) inQuotes)"
  by pat_completeness auto
termination
  by (relation "measure (\<lambda>(line, result, current, inQuotes). length line)") auto

definition parseCSVLine :: "string \<Rightarrow> string list" where
  "parseCSVLine line = parseCSVLine_loop line [] [] False"

section \<open>The test-case record\<close>

text \<open>
  The parser builds each test case as a JavaScript object. Its properties and their types
  are fixed by the \<^verbatim>\<open>switch\<close> that fills it: \<^verbatim>\<open>id\<close>, \<^verbatim>\<open>title\<close>, \<^verbatim>\<open>expected\<close>,
  \<^verbatim>\<open>priority\<close>, \<^verbatim>\<open>category\<close> and \<^verbatim>\<open>type\<close> hold strings, \<^verbatim>\<open>steps\<close> an array of strings,
  \<^verbatim>\<open>qualityScore\<close> a number, and every other key a string. \<open>None\<close> is a property that
  was never assigned (\<^verbatim>\<open>undefined\<close> when read). \<^verbatim>\<open>testData\<close> is read by the Zephyr
  exporter; the parser never assigns it, since the keys it makes are lower case.
  A number is the rational it denotes.
\<close>

record testCase =
  tc_id :: "string option"
  tc_title :: "string option"
  tc_steps :: "string list option"
  tc_expected :: "string option"
  tc_priority :: "string option"
  tc_category :: "string option"
  tc_type :: "string option"
  tc_qualityScore :: "rat option"
  tc_testData :: "string option"
  tc_extra :: "(string \<times> string) list"

text \<open>\<^verbatim>\<open>const testCase = {}\<close>\<close>

definition emptyTestCase :: testCase where
  "emptyTestCase =
     \<lparr>tc_id = None, tc_title = None, tc_steps = None, tc_expected = None,
      tc_priority = None, tc_category = None, tc_type = None, tc_qualityScore = None,
      tc_testData = None, tc_extra = []\<rparr>"

text \<open>Assignment to a property kept in the list of extra fields: the value of an
  existing key is replaced, a new key is added. Nothing in the program enumerates the
  properties, so their order is of no effect.\<close>

fun setProp :: "string \<Rightarrow> string \<Rightarrow> (string \<times> string) list \<Rightarrow> (string \<times> string) list" where
  "setProp k v [] = [(k, v)]"
| "setProp k v ((k', v') # ps) = (if k' = k then (k, v) # ps else (k', v') # setProp k v ps)"

text \<open>Truthiness of a string-valued property: \<^verbatim>\<open>undefined\<close> and \<^verbatim>\<open>''\<close> are falsy.\<close>

fun truthyStr :: "string option \<Rightarrow> bool" where
  "truthyStr None = False"
| "truthyStr (Some s) = (s \<noteq> [])"

text \<open>\<^verbatim>\<open>value || dflt\<close> on a string value\<close>

definition orElse :: "string \<Rightarrow> string \<Rightarrow> string" where
  "orElse v dflt = (if v = [] then dflt else v)"

text \<open>\<^verbatim>\<open>prop || dflt\<close> on a string-valued property\<close>

definition propOr :: "string option \<Rightarrow> string \<Rightarrow> string" where
  "propOr p dflt = (case p of None \<Rightarrow> dflt | Some s \<Rightarrow> if s = [] then dflt else s)"

section \<open>csvParser.js: the record mapper\<close>

definition isDigit :: "char \<Rightarrow> bool" where
  "isDigit c \<longleftrightarrow> (let n = of_char c :: nat in 0x30 \<le> n \<and> n \<le> 0x39)"

definition digitVal :: "char \<Rightarrow> nat" where
  "digitVal c = of_char c - 0x30"

text \<open>The value of a run of decimal digits.\<close>

definition digitsVal :: "string \<Rightarrow> nat" where
  "digitsVal ds = foldl (\<lambda>a c. 10 * a + digitVal c) 0 ds"

text \<open>\<^verbatim>\<open>s.replace(/^\d+\.\s*/, '')\<close>: a leading run of digits followed by a dot goes,
  with the white space after the dot.\<close>

definition stripNumbering :: "string \<Rightarrow> string" where
  "stripNumbering s =
     (let ds = takeWhile isDigit s; r = dropWhile isDigit s
      in if ds \<noteq> [] \<and> startsWith r ''.'' then dropWhile isWhiteSpace (tl r) else s)"

text \<open>The decoding of the steps cell (the \<^verbatim>\<open>case 'steps'\<close> branch).\<close>

definition decodeSteps :: "string \<Rightarrow> string list" where
  "decodeSteps v =
     (if includesStr v [pipe] then map trim (splitOn pipe v)
      else if includesStr v [newline] then map (\<lambda>s. stripNumbering (trim s)) (splitOn newline v)
      else [v])"

text \<open>
  \<^verbatim>\<open>value.match(/(\d+\.?\d*)/)\<close> and \<^verbatim>\<open>parseFloat\<close> of the match: the leftmost run of
  digits, an optional dot and the digits after it. The result is the rational the decimal
  denotes (JavaScript rounds it to the nearest double); 0 when no digit occurs.
\<close>

definition parseScore :: "string \<Rightarrow> rat" where
  "parseScore v =
     (let r = dropWhile (\<lambda>c. \<not> isDigit c) v in
      if r = [] then 0
      else
        let ip = takeWhile isDigit r; r' = dropWhile isDigit r;
            fp = (if startsWith r' ''.'' then takeWhile isDigit (tl r') else [])
        in of_nat (digitsVal ip) + of_nat (digitsVal fp) / of_nat (10 ^ length fp))"

text \<open>\<^verbatim>\<open>s.replace(/\s+/g, '_')\<close>: every maximal run of white space becomes one underscore.\<close>

function collapseWS :: "string \<Rightarrow> string" where
  "collapseWS [] = []"
| "collapseWS (c # cs) =
     (if isWhiteSpace c then CHR ''_'' # collapseWS (dropWhile isWhiteSpace cs)
      else c # collapseWS cs)"
  by pat_completeness auto
termination
  by (relation "measure length") (auto simp: length_dropWhile_le less_Suc_eq_le)

text \<open>
  The body of \<^verbatim>\<open>headers.forEach\<close>: the \<^verbatim>\<open>switch\<close> on the lower-cased header. In the
  \<^verbatim>\<open>default\<close> branch the key \<^verbatim>\<open>id\<close> is the property \<^verbatim>\<open>id\<close> itself; assigning a string
  to \<^verbatim>\<open>__proto__\<close> creates no property; no other key of that branch is the name of a
  property of the record (the names handled by the \<^verbatim>\<open>switch\<close> never reach it, and
  \<^verbatim>\<open>qualityScore\<close> and \<^verbatim>\<open>testData\<close> are not lower case).
\<close>

definition assignField :: "string \<Rightarrow> string \<Rightarrow> testCase \<Rightarrow> testCase" where
  "assignField header v testCase =
     (let h = toLowerCase header in
      if h = ''testid'' \<or> h = ''test id'' then testCase\<lparr>tc_id := Some v\<rparr>
      else if h = ''title'' then testCase\<lparr>tc_title := Some v\<rparr>
      else if h = ''steps'' then testCase\<lparr>tc_steps := Some (decodeSteps v)\<rparr>
      else if h = ''expected result'' \<or> h = ''expected'' then testCase\<lparr>tc_expected := Some v\<rparr>
      else if h = ''priority'' then testCase\<lparr>tc_priority := Some (orElse v ''Medium'')\<rparr>
      else if h = ''category'' then testCase\<lparr>tc_category := Some (orElse v ''Functional'')\<rparr>
      else if h = ''type'' then testCase\<lparr>tc_type := Some (orElse v ''Smoke'')\<rparr>
      else if h = ''quality score'' then testCase\<lparr>tc_qualityScore := Some (parseScore v)\<rparr>
      else
        let key = collapseWS h in
        if key = ''id'' then testCase\<lparr>tc_id := Some v\<rparr>
        else if key = ''__proto__'' then testCase
        else testCase\<lparr>tc_extra := setProp key v (tc_extra testCase)\<rparr>)"

text \<open>\<^verbatim>\<open>values[index] || ''\<close>: reading past the end gives \<^verbatim>\<open>undefined\<close>, hence \<^verbatim>\<open>''\<close>.\<close>

definition valueAt :: "string list \<Rightarrow> nat \<Rightarrow> string" where
  "valueAt vs index = (if index < length vs then vs ! index else [])"

text \<open>\<^verbatim>\<open>headers.forEach((header, index) => ...)\<close>, from position \<open>index\<close> on.\<close>

fun mapHeaders :: "string list \<Rightarrow> nat \<Rightarrow> string list \<Rightarrow> testCase \<Rightarrow> testCase" where
  "mapHeaders [] index vs testCase = testCase"
| "mapHeaders (header # hs) index vs testCase =
     mapHeaders hs (Suc index) vs (assignField header (valueAt vs index) testCase)"

text \<open>The test of \<^verbatim>\<open>lines.findIndex\<close>.\<close>

definition isHeaderLine :: "string \<Rightarrow> bool" where
  "isHeaderLine line \<longleftrightarrow>
     includesStr (toLowerCase line) ''testid'' \<or> includesStr (toLowerCase line) ''test id''
     \<or> includesStr (toLowerCase line) ''title''"

text \<open>\<^verbatim>\<open>xs.findIndex(p)\<close>; \<open>None\<close> stands for the result \<^verbatim>\<open>-1\<close>.\<close>

fun findIndex :: "('a \<Rightarrow> bool) \<Rightarrow> 'a list \<Rightarrow> nat option" where
  "findIndex p [] = None"
| "findIndex p (x # xs) =
     (if p x then Some 0 else (case findIndex p xs of None \<Rightarrow> None | Some i \<Rightarrow> Some (Suc i)))"

text \<open>\<^verbatim>\<open>lines[headerIndex].split(',').map(h => h.trim().replace(/"/g, ''))\<close>\<close>

definition parseHeaders :: "string \<Rightarrow> string list" where
  "parseHeaders line = map (\<lambda>h. filter (\<lambda>c. c \<noteq> dquote) (trim h)) (splitOn comma line)"

text \<open>The test that skips a data line: blank, a separator, or a metadata line.\<close>

definition skipLine :: "string \<Rightarrow> bool" where
  "skipLine line \<longleftrightarrow> trim line = [] \<or> startsWith line ''---'' \<or> includesStr line ''METADATA''"

text \<open>The \<^verbatim>\<open>for (const line of dataLines)\<close> loop; \<open>testCases\<close> is the array built so far.\<close>

fun dataLoop :: "string list \<Rightarrow> string list \<Rightarrow> testCase list \<Rightarrow> testCase list" where
  "dataLoop headers [] testCases = testCases"
| "dataLoop headers (line # rest) testCases =
     (if skipLine line then dataLoop headers rest testCases
      else
        let vs = parseCSVLine line in
        if length vs < length headers then dataLoop headers rest testCases
        else
          let testCase = mapHeaders headers 0 vs emptyTestCase in
          if truthyStr (tc_id testCase) \<and> truthyStr (tc_title testCase)
          then dataLoop headers rest (testCases @ [testCase])
          else dataLoop headers rest testCases)"

text \<open>The argument of \<^verbatim>\<open>parseCSVToTestCases\<close> is whatever the caller passes.\<close>

datatype jsValue = JSUndefined | JSNull | JSBoolean bool | JSNumber rat | JSString string

fun truthy :: "jsValue \<Rightarrow> bool" where
  "truthy JSUndefined = False"
| "truthy JSNull = False"
| "truthy (JSBoolean b) = b"
| "truthy (JSNumber n) = (n \<noteq> 0)"
| "truthy (JSString s) = (s \<noteq> [])"

datatype jsError = TypeError

text \<open>
  The body of the \<^verbatim>\<open>try\<close> block, from the lines on. \<^verbatim>\<open>lines[headerIndex]\<close> is
  \<^verbatim>\<open>undefined\<close> when the index is past the end, and calling \<^verbatim>\<open>split\<close> on it raises a
  TypeError.
\<close>

definition parseLines :: "string list \<Rightarrow> jsError + testCase list" where
  "parseLines lines =
     (case findIndex isHeaderLine lines of
        None \<Rightarrow> Inr []
      | Some headerIndex \<Rightarrow>
          if headerIndex < length lines
          then Inr (dataLoop (parseHeaders (lines ! headerIndex))
                      (drop (Suc headerIndex) lines) [])
          else Inl TypeError)"

text \<open>The whole body: \<^verbatim>\<open>csvContent.trim()\<close> raises a TypeError on a value that is not a
  string.\<close>

fun tryBody :: "jsValue \<Rightarrow> jsError + testCase list" where
  "tryBody (JSString s) = parseLines (splitOn newline (trim s))"
| "tryBody _ = Inl TypeError"

text \<open>\<^verbatim>\<open>parseCSVToTestCases\<close>: the guard, then the \<^verbatim>\<open>try\<close> block, whose \<^verbatim>\<open>catch\<close> returns
  the empty array.\<close>

definition parseCSVToTestCases :: "jsValue \<Rightarrow> testCase list" where
  "parseCSVToTestCases csvContent =
     (if \<not> truthy csvContent then []
      else (case tryBody csvContent of Inl e \<Rightarrow> [] | Inr testCases \<Rightarrow> testCases))"

section \<open>zephyrExporter.js: escaping\<close>

text \<open>\<^verbatim>\<open>stringField.replace(/"/g, '""')\<close>\<close>

definition doubleQuotes :: "string \<Rightarrow> string" where
  "doubleQuotes s = concat (map (\<lambda>c. if c = dquote then [dquote, dquote] else [c]) s)"

text \<open>\<^verbatim>\<open>escapeCSVField\<close>, on a string argument: the empty string is falsy and returned as
  the empty string.\<close>

definition escapeCSVField :: "string \<Rightarrow> string" where
  "escapeCSVField field =
     (if field = [] then []
      else if includesStr field [comma] \<or> includesStr field [newline] \<or> includesStr field [dquote]
      then [dquote] @ doubleQuotes field @ [dquote]
      else field)"

text \<open>Decimal notation of a natural number (\<^verbatim>\<open>String(n)\<close>, \<^verbatim>\<open>`${n}`\<close>).\<close>

function showNat :: "nat \<Rightarrow> string" where
  "showNat n =
     (if n < 10 then [char_of (0x30 + n)]
      else showNat (n div 10) @ [char_of (0x30 + n mod 10)])"
  by pat_completeness auto
termination
  by (relation "measure id") auto

declare showNat.simps [simp del]

section \<open>zephyrExporter.js: the Zephyr CSV\<close>

definition zephyrHeaders :: "string list" where
  "zephyrHeaders =
     [''Name'', ''Status'', ''Precondition'', ''Objective'', ''Folder'', ''Priority'',
      ''Component'', ''Labels'', ''Owner'', ''Estimated Time'', ''Coverage (Issues)'',
      ''Coverage (Pages)'', ''Test Script (Step-by-Step) - Step'',
      ''Test Script (Step-by-Step) - Test Data'',
      ''Test Script (Step-by-Step) - Expected Result'', ''Test Script (Plain Text)'',
      ''Test Script (BDD)'']"

text \<open>\<^verbatim>\<open>steps.map((step, index) => `${index + 1}. ${step}`)\<close>, from position \<open>index\<close> on.\<close>

fun numberSteps :: "nat \<Rightarrow> string list \<Rightarrow> string list" where
  "numberSteps index [] = []"
| "numberSteps index (step # steps) =
     (showNat (index + 1) @ ''. '' @ step) # numberSteps (Suc index) steps"

text \<open>\<^verbatim>\<open>stepText\<close>: the numbered steps joined by newlines, \<^verbatim>\<open>''\<close> when \<^verbatim>\<open>steps\<close> is absent.\<close>

definition stepText :: "testCase \<Rightarrow> string" where
  "stepText testCase =
     (case tc_steps testCase of
        Some steps \<Rightarrow> joinWith [newline] (numberSteps 0 steps)
      | None \<Rightarrow> [])"

definition plainTextScript :: "testCase \<Rightarrow> string" where
  "plainTextScript testCase =
     ''Steps:'' @ [newline] @ stepText testCase @ [newline, newline] @ ''Expected Result:''
       @ [newline] @ propOr (tc_expected testCase) []"

text \<open>\<^verbatim>\<open>if (p) labels.push(p)\<close> on the empty array: the labels a property adds.\<close>

definition pushIfTruthy :: "string option \<Rightarrow> string list" where
  "pushIfTruthy p = (case p of None \<Rightarrow> [] | Some s \<Rightarrow> if s = [] then [] else [s])"

definition formatLabels :: "testCase \<Rightarrow> string" where
  "formatLabels testCase =
     joinWith '', '' (pushIfTruthy (tc_category testCase) @ pushIfTruthy (tc_type testCase))"

definition estimateTime :: "testCase \<Rightarrow> string" where
  "estimateTime testCase =
     (case tc_steps testCase of
        None \<Rightarrow> []
      | Some steps \<Rightarrow>
          let stepCount = length steps;
              estimatedMinutes = max (stepCount * 2) 5
          in if estimatedMinutes \<ge> 60 then
               let hours = estimatedMinutes div 60; minutes = estimatedMinutes mod 60
               in if minutes > 0 then showNat hours @ ''h '' @ showNat minutes @ ''m''
                  else showNat hours @ ''h''
             else showNat estimatedMinutes @ ''m'')"

text \<open>The keyword that \<^verbatim>\<open>generateBDDScript\<close> gives the trimmed step at position \<open>index\<close>.\<close>

definition bddKeyword :: "nat \<Rightarrow> string \<Rightarrow> string" where
  "bddKeyword index st =
     (let l = toLowerCase st in
      if index = 0 then ''Given ''
      else if includesStr l ''click'' \<or> includesStr l ''enter'' \<or> includesStr l ''select''
              \<or> includesStr l ''submit'' then ''When ''
      else if includesStr l ''verify'' \<or> includesStr l ''should'' \<or> includesStr l ''check''
      then ''Then ''
      else ''And '')"

text \<open>\<^verbatim>\<open>testCase.steps.forEach\<close> of \<^verbatim>\<open>generateBDDScript\<close>, from position \<open>index\<close> on;
  \<open>bddSteps\<close> is the text built so far.\<close>

fun bddLoop :: "nat \<Rightarrow> string list \<Rightarrow> string \<Rightarrow> string" where
  "bddLoop index [] bddSteps = bddSteps"
| "bddLoop index (step # steps) bddSteps =
     bddLoop (Suc index) steps
       (bddSteps @ ''  '' @ bddKeyword index (trim step) @ trim step @ [newline])"

definition generateBDDScript :: "testCase \<Rightarrow> string" where
  "generateBDDScript testCase =
     (case tc_steps testCase of
        None \<Rightarrow> []
      | Some steps \<Rightarrow>
          let scenario = ''Scenario: '' @ propOr (tc_title testCase) ''Test Scenario'' @ [newline];
              bddSteps = bddLoop 0 steps [];
              bddSteps' = (case tc_expected testCase of
                             None \<Rightarrow> bddSteps
                           | Some e \<Rightarrow> if e = [] then bddSteps
                                       else bddSteps @ ''  Then '' @ e @ [newline])
          in scenario @ bddSteps')"

text \<open>The array of 17 cells that \<^verbatim>\<open>convertToZephyrCSV\<close> builds for one test case.\<close>

definition zephyrRow :: "testCase \<Rightarrow> string list" where
  "zephyrRow testCase =
     [escapeCSVField (propOr (tc_title testCase) []),
      ''Approved'',
      [],
      escapeCSVField (propOr (tc_title testCase) []),
      ''/Test Cases'',
      propOr (tc_priority testCase) ''Medium'',
      propOr (tc_category testCase) ''Functional'',
      formatLabels testCase,
      [],
      estimateTime testCase,
      [],
      [],
      escapeCSVField (stepText testCase),
      escapeCSVField (propOr (tc_testData testCase) []),
      escapeCSVField (propOr (tc_expected testCase) []),
      escapeCSVField (plainTextScript testCase),
      escapeCSVField (generateBDDScript testCase)]"

definition convertToZephyrCSV :: "testCase list \<Rightarrow> string" where
  "convertToZephyrCSV testCases =
     joinWith [newline]
       (joinWith '','' zephyrHeaders # map (\<lambda>row. joinWith '','' row) (map zephyrRow testCases))"

section \<open>The plain CSV export of \<^verbatim>\<open>handleExport\<close>\<close>

text \<open>
  The quality report is a state of the component next to the generated cases, \<^verbatim>\<open>null\<close>
  until a report arrives. An entry of \<^verbatim>\<open>individual_scores\<close> names a test case by its
  id and carries its score.
\<close>

record scoreEntry =
  test_id :: "string option"
  total_score :: "rat option"

record qualityReport =
  individual_scores :: "scoreEntry list option"

text \<open>\<^verbatim>\<open>qualityReport?.individual_scores?.find(s => s.test_id === testCase.id)?.total_score || 0\<close>\<close>

definition lookupScore :: "qualityReport option \<Rightarrow> testCase \<Rightarrow> rat" where
  "lookupScore report testCase =
     (case report of
        None \<Rightarrow> 0
      | Some r \<Rightarrow>
          (case individual_scores r of
             None \<Rightarrow> 0
           | Some entries \<Rightarrow>
               (case find (\<lambda>s. test_id s = tc_id testCase) entries of
                  None \<Rightarrow> 0
                | Some s \<Rightarrow> (case total_score s of None \<Rightarrow> 0 | Some x \<Rightarrow> x))))"

text \<open>
  \<^verbatim>\<open>x.toFixed(1)\<close>: the sign, then the magnitude. Below \<open>10^21\<close> the magnitude is
  printed as its nearest multiple of a tenth, the larger one of two equally near, with one
  digit after the point. From \<open>10^21\<close> on the result is the language's own conversion of
  the number to a string, which is in exponent notation (\<^verbatim>\<open>1e+21\<close>); that conversion is
  not part of the program and is the parameter \<open>numberToString\<close>.
\<close>

definition toFixed1 :: "(rat \<Rightarrow> string) \<Rightarrow> rat \<Rightarrow> string" where
  "toFixed1 numberToString x =
     (let s = (if x < 0 then ''-'' else []); a = \<bar>x\<bar>
      in if 10 ^ 21 \<le> a then s @ numberToString a
         else let n = nat \<lfloor>a * 10 + 1 / 2\<rfloor>
              in s @ showNat (n div 10) @ ''.'' @ showNat (n mod 10))"

text \<open>\<^verbatim>\<open>qualityScore > 0 ? `${qualityScore.toFixed(1)}/10` : 'N/A'\<close>\<close>

definition scoreCell :: "(rat \<Rightarrow> string) \<Rightarrow> rat \<Rightarrow> string" where
  "scoreCell numberToString qualityScore =
     (if qualityScore > 0 then toFixed1 numberToString qualityScore @ ''/10'' else ''N/A'')"

text \<open>A string-valued property inside a template literal: \<^verbatim>\<open>undefined\<close> prints as such.\<close>

definition template :: "string option \<Rightarrow> string" where
  "template p = (case p of None \<Rightarrow> ''undefined'' | Some s \<Rightarrow> s)"

text \<open>A string-valued property as an element of \<^verbatim>\<open>row.join(',')\<close>: \<^verbatim>\<open>undefined\<close> prints
  as the empty string.\<close>

definition element :: "string option \<Rightarrow> string" where
  "element p = (case p of None \<Rightarrow> [] | Some s \<Rightarrow> s)"

definition csvHeaders :: "string list" where
  "csvHeaders = [''Test ID'', ''Title'', ''Steps'', ''Expected Result'', ''Priority'', ''Quality Score'']"

text \<open>The cells of the row of one test case, before \<^verbatim>\<open>row.join(',')\<close>.\<close>

definition csvRow :: "(rat \<Rightarrow> string) \<Rightarrow> qualityReport option \<Rightarrow> testCase \<Rightarrow> string list" where
  "csvRow numberToString report testCase =
     (let qualityScore = lookupScore report testCase;
          steps = (case tc_steps testCase of
                     Some l \<Rightarrow> joinWith '' | '' l
                   | None \<Rightarrow> ''undefined'')
      in [element (tc_id testCase),
          [dquote] @ template (tc_title testCase) @ [dquote],
          [dquote] @ steps @ [dquote],
          [dquote] @ template (tc_expected testCase) @ [dquote],
          element (tc_priority testCase),
          scoreCell numberToString qualityScore])"

text \<open>\<^verbatim>\<open>generatedCases.forEach\<close>: every row is appended to \<open>content\<close> with a newline.\<close>

fun csvLoop ::
  "(rat \<Rightarrow> string) \<Rightarrow> qualityReport option \<Rightarrow> testCase list \<Rightarrow> string \<Rightarrow> string" where
  "csvLoop numberToString report [] content = content"
| "csvLoop numberToString report (testCase # rest) content =
     csvLoop numberToString report rest
       (content @ joinWith '','' (csvRow numberToString report testCase) @ [newline])"

text \<open>
  \<^verbatim>\<open>handleExport\<close> with \<^verbatim>\<open>format === 'csv'\<close>, from the two states it reads: the quality
  report and the generated cases. With no generated case it warns and returns before
  anything is built (\<open>None\<close>); otherwise the result is the \<open>content\<close> that it hands to
  the file writer once the save dialog is confirmed.
\<close>

definition handleExport_csv ::
  "(rat \<Rightarrow> string) \<Rightarrow> qualityReport option \<Rightarrow> testCase list \<Rightarrow> string option" where
  "handleExport_csv numberToString report generatedCases =
     (if length generatedCases = 0 then None
      else Some (csvLoop numberToString report generatedCases
                   (joinWith '','' csvHeaders @ [newline])))"

text \<open>The examples below format scores under \<open>10^21\<close> only, where the conversion of the
  language is not consulted; there this function stands in for it.\<close>

definition notConsulted :: "rat \<Rightarrow> string" where
  "notConsulted x = []"

section \<open>Facts about the string functions\<close>

lemma includes_single: "includesStr s [c] \<longleftrightarrow> c \<in> set s"
  by (induction s) auto

lemma trim_Nil: "trim [] = []"
  by (simp add: trim_def)

lemma last_dropWhile: "dropWhile P xs \<noteq> [] \<Longrightarrow> last (dropWhile P xs) = last xs"
  by (induction xs) (auto split: if_splits)

text \<open>A trimmed string neither starts nor ends with white space.\<close>

lemma trim_ends:
  assumes "trim s \<noteq> []"
  shows "\<not> isWhiteSpace (hd (trim s))" and "\<not> isWhiteSpace (last (trim s))"
proof -
  define d where "d = dropWhile isWhiteSpace s"
  define ys where "ys = dropWhile isWhiteSpace (rev d)"
  have t: "trim s = rev ys" by (simp add: trim_def d_def ys_def)
  with assms have ys: "ys \<noteq> []" by simp
  then have d: "d \<noteq> []" by (auto simp: ys_def)
  have "hd (trim s) = last ys" using ys by (simp add: t hd_rev)
  also have "\<dots> = last (rev d)" using ys unfolding ys_def by (rule last_dropWhile)
  also have "\<dots> = hd d" using d by (simp add: last_rev)
  finally have "hd (trim s) = hd d" .
  moreover have "\<not> isWhiteSpace (hd d)" using d unfolding d_def by (rule hd_dropWhile)
  ultimately show "\<not> isWhiteSpace (hd (trim s))" by simp
  have "last (trim s) = hd ys" using ys by (simp add: t last_rev)
  moreover have "\<not> isWhiteSpace (hd ys)" using ys unfolding ys_def by (rule hd_dropWhile)
  ultimately show "\<not> isWhiteSpace (last (trim s))" by simp
qed

lemma trim_fixed:
  assumes "x \<noteq> [] \<Longrightarrow> \<not> isWhiteSpace (hd x) \<and> \<not> isWhiteSpace (last x)"
  shows "trim x = x"
proof (cases "x = []")
  case True
  then show ?thesis by (simp add: trim_def)
next
  case False
  with assms have h: "\<not> isWhiteSpace (hd x)" and l: "\<not> isWhiteSpace (last x)" by auto
  have 1: "dropWhile isWhiteSpace x = x" using h by (simp add: dropWhile_eq_self_iff)
  have "hd (rev x) = last x" using False by (simp add: hd_rev)
  then have 2: "dropWhile isWhiteSpace (rev x) = rev x"
    using l by (simp add: dropWhile_eq_self_iff)
  show ?thesis by (simp add: trim_def 1 2)
qed

lemma trim_idem: "trim (trim s) = trim s"
  by (rule trim_fixed) (simp add: trim_ends)

lemma set_trim: "set (trim s) \<subseteq> set s"
proof -
  have "set (trim s) = set (dropWhile isWhiteSpace (rev (dropWhile isWhiteSpace s)))"
    by (simp add: trim_def)
  also have "\<dots> \<subseteq> set (rev (dropWhile isWhiteSpace s))"
    by (rule subsetI) (erule set_dropWhileD)
  also have "\<dots> \<subseteq> set s"
    by (simp only: set_rev) (rule subsetI, erule set_dropWhileD)
  finally show ?thesis .
qed

lemma splitOn_notin: "d \<notin> set s \<Longrightarrow> splitOn d s = [s]"
  by (induction s) auto

lemma splitOn_append: "d \<notin> set s \<Longrightarrow> splitOn d (s @ d # r) = s # splitOn d r"
  by (induction s) auto

text \<open>Splitting undoes joining when no part holds the separator.\<close>

lemma splitOn_joinWith:
  "parts \<noteq> [] \<Longrightarrow> \<forall>s\<in>set parts. d \<notin> set s \<Longrightarrow> splitOn d (joinWith [d] parts) = parts"
proof (induction "[d]" parts rule: joinWith.induct)
  case 1
  then show ?case by simp
next
  case (2 p)
  then show ?case by (simp add: splitOn_notin)
next
  case (3 p q ps)
  then show ?case by (simp add: splitOn_append)
qed

section \<open>The keys of the default branch\<close>

lemma collapseWS_no_underscore: "CHR ''_'' \<notin> set (collapseWS s) \<Longrightarrow> collapseWS s = s"
  by (induction s rule: collapseWS.induct) (auto split: if_splits)

text \<open>Lower-casing leaves no capital letter A-Z.\<close>

lemma lowerChar_not_capital:
  assumes "0x41 \<le> (of_char c :: nat)" and "(of_char c :: nat) \<le> 0x5A"
  shows "lowerChar d \<noteq> c"
proof
  assume eq: "lowerChar d = c"
  let ?n = "of_char d :: nat"
  show False
  proof (cases "(0x41 \<le> ?n \<and> ?n \<le> 0x5A) \<or> (0xC0 \<le> ?n \<and> ?n \<le> 0xDE \<and> ?n \<noteq> 0xD7)")
    case True
    then have "lowerChar d = char_of (?n + 0x20)" by (simp add: lowerChar_def Let_def)
    with eq have "(of_char c :: nat) = (?n + 0x20) mod 256" by (metis of_char_of)
    with True assms show False by auto
  next
    case False
    then have "lowerChar d = d" unfolding lowerChar_def Let_def by (simp only: if_False)
    with eq False assms show False by auto
  qed
qed

lemma toLowerCase_no_capital:
  assumes "0x41 \<le> (of_char c :: nat)" and "(of_char c :: nat) \<le> 0x5A"
  shows "c \<notin> set (toLowerCase s)"
  using lowerChar_not_capital [OF assms] by (auto simp: toLowerCase_def)

text \<open>The key that the default branch of the switch makes from a header is none of the
  properties \<^verbatim>\<open>title\<close>, \<^verbatim>\<open>steps\<close>, \<^verbatim>\<open>expected\<close>, \<^verbatim>\<open>priority\<close>, \<^verbatim>\<open>category\<close>, \<^verbatim>\<open>type\<close>,
  \<^verbatim>\<open>qualityScore\<close> and \<^verbatim>\<open>testData\<close>.\<close>

lemma default_key_is_no_typed_property:
  assumes "h = toLowerCase header"
    and "h \<notin> {''title'', ''steps'', ''expected'', ''priority'', ''category'', ''type''}"
  shows "collapseWS h \<notin> {''title'', ''steps'', ''expected'', ''priority'', ''category'',
           ''type'', ''qualityScore'', ''testData''}"
proof
  let ?k = "collapseWS h"
  assume k: "?k \<in> {''title'', ''steps'', ''expected'', ''priority'', ''category'',
           ''type'', ''qualityScore'', ''testData''}"
  then have "CHR ''_'' \<notin> set ?k" by auto
  then have "?k = h" by (rule collapseWS_no_underscore)
  with k assms(2) have "h = ''qualityScore'' \<or> h = ''testData''" by auto
  then have "CHR ''S'' \<in> set h \<or> CHR ''D'' \<in> set h" by auto
  moreover have "CHR ''S'' \<notin> set h" unfolding assms(1) by (rule toLowerCase_no_capital) simp_all
  moreover have "CHR ''D'' \<notin> set h" unfolding assms(1) by (rule toLowerCase_no_capital) simp_all
  ultimately show False by blast
qed

section \<open>The tokenizer and the escaping\<close>

text \<open>Inside a quoted span the tokenizer reads a field with doubled quotes back, up to the
  closing quote.\<close>

lemma parseCSVLine_loop_quoted:
  "parseCSVLine_loop (doubleQuotes s @ [dquote]) result current True
     = result @ [trim (current @ s)]"
proof (induction s arbitrary: current)
  case Nil
  show ?case by (simp add: doubleQuotes_def)
next
  case (Cons c s)
  have step: "parseCSVLine_loop (doubleQuotes (c # s) @ [dquote]) result current True
                = parseCSVLine_loop (doubleQuotes s @ [dquote]) result (current @ [c]) True"
    by (cases "c = dquote") (simp_all add: doubleQuotes_def)
  show ?case unfolding step Cons.IH by simp
qed

lemma escapeCSVField_special:
  assumes "comma \<in> set s \<or> newline \<in> set s \<or> dquote \<in> set s"
  shows "escapeCSVField s = dquote # doubleQuotes s @ [dquote]"
  using assms by (auto simp: escapeCSVField_def includes_single)

text \<open>
  Claim C4, as amended. For every string \<open>s\<close> that contains a comma, a quote or a newline,
  tokenizing the escaped form of \<open>s\<close> yields one field: \<open>s\<close> without its leading and
  trailing white space, which the tokenizer trims from every field. The field is \<open>s\<close>
  itself exactly when \<open>s\<close> has no such white space.
\<close>

theorem C4_quoting_roundtrip:
  assumes "includesStr s [comma] \<or> includesStr s [dquote] \<or> includesStr s [newline]"
  shows "parseCSVLine (escapeCSVField s) = [trim s]
         \<and> (parseCSVLine (escapeCSVField s) = [s] \<longleftrightarrow> trim s = s)"
proof -
  from assms have "comma \<in> set s \<or> newline \<in> set s \<or> dquote \<in> set s"
    by (auto simp: includes_single)
  then have "escapeCSVField s = dquote # doubleQuotes s @ [dquote]"
    by (rule escapeCSVField_special)
  then have "parseCSVLine (escapeCSVField s) = [trim s]"
    by (simp add: parseCSVLine_def parseCSVLine_loop_quoted)
  then show ?thesis by auto
qed

theorem C4_quoting_roundtrip_witness:
  "(includesStr ''a,b'' [comma] \<or> includesStr ''a,b'' [dquote] \<or> includesStr ''a,b'' [newline])
   \<and> parseCSVLine (escapeCSVField ''a,b'') = [''a,b'']"
  using C4_quoting_roundtrip [of "''a,b''"] by (simp add: trim_def isWhiteSpace_def)

text \<open>The claim as stated fails on a string with leading white space: \<^verbatim>\<open>" a,b"\<close> comes
  back as \<^verbatim>\<open>"a,b"\<close>.\<close>

theorem C4_counterexample:
  "includesStr '' a,b'' [comma] \<and> parseCSVLine (escapeCSVField '' a,b'') \<noteq> ['' a,b'']"
  by (simp add: parseCSVLine_def escapeCSVField_def doubleQuotes_def trim_def isWhiteSpace_def)

section \<open>The decoding of the steps cell\<close>

lemma decodeSteps_empty: "decodeSteps [] = [[]]"
  by (simp add: decodeSteps_def)

text \<open>
  Claim C5, as amended. For every non-empty sequence of steps in which no step contains
  \<^verbatim>\<open>|\<close> or a newline, decoding the pipe-joined form returns the single step unchanged
  when there is one, and the steps trimmed when there are two or more; so it returns the
  sequence itself whenever no step has leading or trailing white space.
\<close>

theorem C5_steps_roundtrip:
  assumes "steps \<noteq> []" and "\<forall>s\<in>set steps. pipe \<notin> set s \<and> newline \<notin> set s"
  shows "decodeSteps (joinWith ''|'' steps) = (if length steps = 1 then steps else map trim steps)
         \<and> ((\<forall>s\<in>set steps. trim s = s) \<longrightarrow> decodeSteps (joinWith ''|'' steps) = steps)"
proof -
  have main: "decodeSteps (joinWith ''|'' steps)
                = (if length steps = 1 then steps else map trim steps)"
  proof (cases steps)
    case Nil
    with assms show ?thesis by simp
  next
    case (Cons p ps)
    show ?thesis
    proof (cases ps)
      case Nil
      with Cons assms have "pipe \<notin> set p" "newline \<notin> set p" by auto
      then show ?thesis using Cons Nil by (simp add: decodeSteps_def includes_single)
    next
      case (Cons q qs)
      have "pipe \<in> set (joinWith [pipe] steps)"
        unfolding \<open>steps = p # ps\<close> Cons by simp
      moreover have "splitOn pipe (joinWith [pipe] steps) = steps"
        using assms by (intro splitOn_joinWith) auto
      ultimately show ?thesis
        using Cons \<open>steps = p # ps\<close> by (simp add: decodeSteps_def includes_single)
    qed
  qed
  moreover have "(\<forall>s\<in>set steps. trim s = s) \<longrightarrow> map trim steps = steps"
    by (simp add: map_idI)
  ultimately show ?thesis by auto
qed

theorem C5_steps_roundtrip_witness:
  "[''Enter user'', ''Click login''] \<noteq> []
   \<and> pipe \<notin> set ''Enter user'' \<and> newline \<notin> set ''Enter user''
   \<and> pipe \<notin> set ''Click login'' \<and> newline \<notin> set ''Click login''
   \<and> trim ''Enter user'' = ''Enter user'' \<and> trim ''Click login'' = ''Click login''
   \<and> decodeSteps (joinWith ''|'' [''Enter user'', ''Click login''])
       = [''Enter user'', ''Click login'']"
  using C5_steps_roundtrip [of "[''Enter user'', ''Click login'']"]
  by (simp add: trim_def isWhiteSpace_def)

text \<open>The claim as stated fails on the empty sequence, which decodes to one empty step, and
  on two steps of which one starts with a blank.\<close>

theorem C5_counterexample:
  "decodeSteps (joinWith ''|'' []) \<noteq> []
   \<and> pipe \<notin> set '' a'' \<and> newline \<notin> set '' a'' \<and> pipe \<notin> set ''b'' \<and> newline \<notin> set ''b''
   \<and> decodeSteps (joinWith ''|'' ['' a'', ''b'']) \<noteq> ['' a'', ''b'']"
  by (simp add: decodeSteps_def trim_def isWhiteSpace_def)

section \<open>The mapping of a row to a record\<close>

lemma mapHeaders_append:
  "mapHeaders (hs1 @ hs2) i vs tc = mapHeaders hs2 (i + length hs1) vs (mapHeaders hs1 i vs tc)"
  by (induction hs1 arbitrary: i tc) auto

lemma assignField_steps:
  "toLowerCase h = ''steps'' \<Longrightarrow> tc_steps (assignField h v tc) = Some (decodeSteps v)"
  by (simp add: assignField_def)

lemma assignField_not_steps:
  "toLowerCase h \<noteq> ''steps'' \<Longrightarrow> tc_steps (assignField h v tc) = tc_steps tc"
  by (simp add: assignField_def Let_def)

lemma mapHeaders_not_steps:
  "\<forall>h\<in>set hs. toLowerCase h \<noteq> ''steps'' \<Longrightarrow> tc_steps (mapHeaders hs i vs tc) = tc_steps tc"
  by (induction hs arbitrary: i tc) (simp_all add: assignField_not_steps)

text \<open>
  Claim C6, as amended. For every row whose steps cell is the empty string (the cell under
  the last header named \<^verbatim>\<open>steps\<close>), the steps of the record are the one-element sequence
  that holds the empty string.
\<close>

theorem C6_empty_steps_cell:
  assumes "toLowerCase h = ''steps''" and "\<forall>h'\<in>set hs2. toLowerCase h' \<noteq> ''steps''"
    and "valueAt vs (length hs1) = []"
  shows "tc_steps (mapHeaders (hs1 @ h # hs2) 0 vs emptyTestCase) = Some [[]]"
  using assms
  by (simp add: mapHeaders_append mapHeaders_not_steps assignField_steps decodeSteps_empty)

theorem C6_empty_steps_cell_witness:
  "toLowerCase ''Steps'' = ''steps'' \<and> toLowerCase ''Priority'' \<noteq> ''steps''
   \<and> valueAt [''TC-1'', ''Login'', [], ''High''] (length [''TestID'', ''Title'']) = []
   \<and> tc_steps (mapHeaders ([''TestID'', ''Title''] @ ''Steps'' # [''Priority'']) 0
                  [''TC-1'', ''Login'', [], ''High''] emptyTestCase) = Some [[]]"
proof -
  have h1: "toLowerCase ''Steps'' = ''steps''" by code_simp
  have h2: "toLowerCase ''Priority'' \<noteq> ''steps''" by code_simp
  have h3: "valueAt [''TC-1'', ''Login'', [], ''High''] (length [''TestID'', ''Title'']) = []"
    by code_simp
  from h2 have h2': "\<forall>h'\<in>set [''Priority'']. toLowerCase h' \<noteq> ''steps''" by simp
  from C6_empty_steps_cell [OF h1 h2' h3] h1 h2 h3 show ?thesis by simp
qed

text \<open>The claim as stated fails on the input of the two lines \<^verbatim>\<open>TestID,Title,Steps\<close> and
  \<^verbatim>\<open>TC-1,Login,\<close>: the steps of the one record are \<^verbatim>\<open>['']\<close>, not the empty sequence.\<close>

theorem C6_counterexample:
  "map tc_steps (parseCSVToTestCases (JSString (''TestID,Title,Steps'' @ [newline] @ ''TC-1,Login,'')))
     = [Some [[]]]"
  by code_simp

lemma valueAt_take: "i < n \<Longrightarrow> valueAt (take n vs) i = valueAt vs i"
  by (simp add: valueAt_def)

lemma mapHeaders_take:
  "i + length hs \<le> n \<Longrightarrow> mapHeaders hs i (take n vs) tc = mapHeaders hs i vs tc"
  by (induction hs arbitrary: i tc) (simp_all add: valueAt_take)

text \<open>The loop only appends to the array it is given.\<close>

lemma dataLoop_acc: "dataLoop headers ls acc = acc @ dataLoop headers ls []"
proof (induction ls arbitrary: acc)
  case Nil
  show ?case by simp
next
  case (Cons line ls)
  note IH = Cons.IH [of "acc @ [x]" for x] Cons.IH [of "[x]" for x]
  show ?case
    by (simp add: Let_def IH) (simp add: Cons.IH [of acc])
qed

text \<open>
  Claim C10. A data line that is not skipped and tokenizes to more fields than there are
  header names is not dropped for its length: it contributes the record built from its
  first \<open>length headers\<close> fields alone, subject only to the required-field test.
\<close>

theorem C10_surplus_columns:
  assumes "\<not> skipLine line" and "length headers < length (parseCSVLine line)"
  shows "dataLoop headers (line # rest) [] =
           (let testCase = mapHeaders headers 0 (take (length headers) (parseCSVLine line))
                             emptyTestCase
            in (if truthyStr (tc_id testCase) \<and> truthyStr (tc_title testCase)
                then [testCase] else []) @ dataLoop headers rest [])"
proof -
  have "mapHeaders headers 0 (take (length headers) (parseCSVLine line)) emptyTestCase
          = mapHeaders headers 0 (parseCSVLine line) emptyTestCase"
    by (rule mapHeaders_take) simp
  then show ?thesis
    using assms dataLoop_acc [of headers rest "[x]" for x] by (simp add: Let_def)
qed

theorem C10_surplus_columns_witness:
  "\<not> skipLine ''TC-1,Login,extra,more''
   \<and> length [''TestID'', ''Title''] < length (parseCSVLine ''TC-1,Login,extra,more'')
   \<and> dataLoop [''TestID'', ''Title''] [''TC-1,Login,extra,more''] []
       = [emptyTestCase\<lparr>tc_id := Some ''TC-1'', tc_title := Some ''Login''\<rparr>]"
proof -
  have h1: "\<not> skipLine ''TC-1,Login,extra,more''" by code_simp
  have h2: "length [''TestID'', ''Title''] < length (parseCSVLine ''TC-1,Login,extra,more'')"
    by code_simp
  have t: "mapHeaders [''TestID'', ''Title''] 0
             (take (length [''TestID'', ''Title'']) (parseCSVLine ''TC-1,Login,extra,more''))
             emptyTestCase
           = emptyTestCase\<lparr>tc_id := Some ''TC-1'', tc_title := Some ''Login''\<rparr>"
    by code_simp
  have "dataLoop [''TestID'', ''Title''] [''TC-1,Login,extra,more''] []
          = [emptyTestCase\<lparr>tc_id := Some ''TC-1'', tc_title := Some ''Login''\<rparr>]"
    using C10_surplus_columns [OF h1 h2, of "[]"] unfolding t by (simp add: Let_def)
  with h1 h2 show ?thesis by simp
qed

section \<open>The required fields\<close>

text \<open>Every field the tokenizer returns is trimmed.\<close>

lemma parseCSVLine_loop_trimmed:
  "\<forall>v\<in>set result. trim v = v
    \<Longrightarrow> \<forall>v\<in>set (parseCSVLine_loop line result current inQuotes). trim v = v"
proof (induction line result current inQuotes rule: parseCSVLine_loop.induct)
  case (1 result current inQuotes)
  then show ?case by (simp add: trim_idem)
next
  case (2 char rest result current inQuotes)
  have r: "\<forall>v\<in>set (result @ [trim current]). trim v = v"
    using "2.prems" by (simp add: trim_idem)
  consider (esc) "char = dquote"
      "inQuotes \<and> (case rest of [] \<Rightarrow> False | n # _ \<Rightarrow> n = dquote)"
    | (tog) "char = dquote"
      "\<not> (inQuotes \<and> (case rest of [] \<Rightarrow> False | n # _ \<Rightarrow> n = dquote))"
    | (sep) "char \<noteq> dquote" "char = comma \<and> \<not> inQuotes"
    | (chr) "char \<noteq> dquote" "\<not> (char = comma \<and> \<not> inQuotes)"
    by blast
  then show ?case
  proof cases
    case esc
    from "2.IH"(1) [OF esc "2.prems"] esc show ?thesis by simp
  next
    case tog
    from "2.IH"(2) [OF tog "2.prems"] tog show ?thesis by (cases inQuotes) simp_all
  next
    case sep
    from "2.IH"(3) [OF sep r] sep show ?thesis by simp
  next
    case chr
    from "2.IH"(4) [OF chr "2.prems"] chr show ?thesis by (cases inQuotes) simp_all
  qed
qed

lemma parseCSVLine_trimmed: "v \<in> set (parseCSVLine line) \<Longrightarrow> trim v = v"
  using parseCSVLine_loop_trimmed [of "[]" line "[]" False] by (simp add: parseCSVLine_def)

lemma valueAt_trimmed: "\<forall>v\<in>set vs. trim v = v \<Longrightarrow> trim (valueAt vs i) = valueAt vs i"
  by (simp add: valueAt_def trim_Nil)

text \<open>One header either leaves \<^verbatim>\<open>id\<close> (and \<^verbatim>\<open>title\<close>) alone or sets it to the cell.\<close>

lemma assignField_tc_id:
  "tc_id (assignField h v tc) = tc_id tc \<or> tc_id (assignField h v tc) = Some v"
  unfolding assignField_def Let_def by simp

lemma assignField_tc_title:
  "tc_title (assignField h v tc) = tc_title tc \<or> tc_title (assignField h v tc) = Some v"
  unfolding assignField_def Let_def by simp

lemma mapHeaders_trimmed:
  assumes "\<forall>v\<in>set vs. trim v = v"
  shows "(\<forall>s. tc_id tc = Some s \<longrightarrow> trim s = s) \<and> (\<forall>s. tc_title tc = Some s \<longrightarrow> trim s = s)
     \<Longrightarrow> (\<forall>s. tc_id (mapHeaders hs i vs tc) = Some s \<longrightarrow> trim s = s)
       \<and> (\<forall>s. tc_title (mapHeaders hs i vs tc) = Some s \<longrightarrow> trim s = s)"
proof (induction hs arbitrary: i tc)
  case Nil
  then show ?case by simp
next
  case (Cons h hs)
  have v: "trim (valueAt vs i) = valueAt vs i" using assms by (rule valueAt_trimmed)
  have "\<forall>s. tc_id (assignField h (valueAt vs i) tc) = Some s \<longrightarrow> trim s = s"
    using assignField_tc_id [of h "valueAt vs i" tc] v Cons.prems by auto
  moreover have "\<forall>s. tc_title (assignField h (valueAt vs i) tc) = Some s \<longrightarrow> trim s = s"
    using assignField_tc_title [of h "valueAt vs i" tc] v Cons.prems by auto
  ultimately show ?case
    unfolding mapHeaders.simps by (intro Cons.IH conjI)
qed

lemma truthyStr_Some: "truthyStr p \<longleftrightarrow> (\<exists>s. p = Some s \<and> s \<noteq> [])"
  by (cases p) auto

lemma row_required_fields:
  assumes "tc = mapHeaders headers 0 (parseCSVLine line) emptyTestCase"
    and "truthyStr (tc_id tc)" and "truthyStr (tc_title tc)"
  shows "\<exists>i t. tc_id tc = Some i \<and> trim i \<noteq> [] \<and> tc_title tc = Some t \<and> trim t \<noteq> []"
proof -
  have "\<forall>v\<in>set (parseCSVLine line). trim v = v" by (simp add: parseCSVLine_trimmed)
  then have "(\<forall>s. tc_id tc = Some s \<longrightarrow> trim s = s) \<and> (\<forall>s. tc_title tc = Some s \<longrightarrow> trim s = s)"
    unfolding assms(1) by (rule mapHeaders_trimmed) (simp add: emptyTestCase_def)
  with assms(2,3) show ?thesis by (auto simp: truthyStr_Some)
qed

text \<open>One turn of the loop from the empty array: the line adds nothing, or it adds the record
  of the line, which then has passed the test of the required fields.\<close>

lemma dataLoop_step:
  "dataLoop headers (line # rest) [] = dataLoop headers rest []
   \<or> (\<exists>tc. tc = mapHeaders headers 0 (parseCSVLine line) emptyTestCase
          \<and> truthyStr (tc_id tc) \<and> truthyStr (tc_title tc)
          \<and> dataLoop headers (line # rest) [] = tc # dataLoop headers rest [])"
  using dataLoop_acc [of headers rest "[x]" for x] by (simp add: Let_def)

lemma dataLoop_required_fields:
  "tc \<in> set (dataLoop headers ls [])
    \<Longrightarrow> \<exists>i t. tc_id tc = Some i \<and> trim i \<noteq> [] \<and> tc_title tc = Some t \<and> trim t \<noteq> []"
proof (induction ls)
  case Nil
  then show ?case by simp
next
  case (Cons line ls)
  from dataLoop_step [of headers line ls] show ?case
  proof
    assume "dataLoop headers (line # ls) [] = dataLoop headers ls []"
    with Cons show ?thesis by simp
  next
    assume "\<exists>tc. tc = mapHeaders headers 0 (parseCSVLine line) emptyTestCase
          \<and> truthyStr (tc_id tc) \<and> truthyStr (tc_title tc)
          \<and> dataLoop headers (line # ls) [] = tc # dataLoop headers ls []"
    then obtain tc0 where tc0: "tc0 = mapHeaders headers 0 (parseCSVLine line) emptyTestCase"
      "truthyStr (tc_id tc0)" "truthyStr (tc_title tc0)"
      and eq: "dataLoop headers (line # ls) [] = tc0 # dataLoop headers ls []" by blast
    from Cons.prems eq have "tc = tc0 \<or> tc \<in> set (dataLoop headers ls [])" by simp
    then show ?thesis
    proof
      assume "tc = tc0"
      with row_required_fields [OF tc0] show ?thesis by simp
    next
      assume "tc \<in> set (dataLoop headers ls [])"
      then show ?thesis by (rule Cons.IH)
    qed
  qed
qed

lemma parseLines_required_fields:
  "parseLines lines = Inr testCases \<Longrightarrow> tc \<in> set testCases
    \<Longrightarrow> \<exists>i t. tc_id tc = Some i \<and> trim i \<noteq> [] \<and> tc_title tc = Some t \<and> trim t \<noteq> []"
  by (auto simp: parseLines_def split: option.splits if_splits dest: dataLoop_required_fields)

text \<open>A header named \<^verbatim>\<open>TestID\<close> or \<^verbatim>\<open>Test ID\<close> sets the id to its cell; a header that is
  none of \<^verbatim>\<open>testid\<close>, \<^verbatim>\<open>test id\<close> and \<^verbatim>\<open>id\<close> in lower case leaves the id as it is.\<close>

lemma assignField_sets_id:
  "toLowerCase h = ''testid'' \<or> toLowerCase h = ''test id''
    \<Longrightarrow> tc_id (assignField h v tc) = Some v"
  by (auto simp: assignField_def)

lemma assignField_keeps_id:
  assumes "toLowerCase h \<noteq> ''testid''" and "toLowerCase h \<noteq> ''test id''"
    and "toLowerCase h \<noteq> ''id''"
  shows "tc_id (assignField h v tc) = tc_id tc"
proof -
  have "collapseWS (toLowerCase h) \<noteq> ''id''"
  proof
    assume k: "collapseWS (toLowerCase h) = ''id''"
    then have "CHR ''_'' \<notin> set (collapseWS (toLowerCase h))" by simp
    then have "collapseWS (toLowerCase h) = toLowerCase h" by (rule collapseWS_no_underscore)
    with k assms(3) show False by simp
  qed
  with assms(1,2) show ?thesis by (simp add: assignField_def Let_def)
qed

lemma mapHeaders_keeps_id:
  "\<forall>h\<in>set hs. toLowerCase h \<noteq> ''testid'' \<and> toLowerCase h \<noteq> ''test id''
       \<and> toLowerCase h \<noteq> ''id''
    \<Longrightarrow> tc_id (mapHeaders hs i vs tc) = tc_id tc"
  by (induction hs arbitrary: i tc) (simp_all add: assignField_keeps_id)

text \<open>The id of the record of a row is the cell under the last header that sets the id.\<close>

lemma mapHeaders_id_cell:
  assumes "toLowerCase h = ''testid'' \<or> toLowerCase h = ''test id''"
    and "\<forall>h'\<in>set hs2. toLowerCase h' \<noteq> ''testid'' \<and> toLowerCase h' \<noteq> ''test id''
           \<and> toLowerCase h' \<noteq> ''id''"
  shows "tc_id (mapHeaders (hs1 @ h # hs2) 0 vs tc) = Some (valueAt vs (length hs1))"
  using assms
  by (simp add: mapHeaders_append mapHeaders_keeps_id assignField_sets_id)

text \<open>
  Claim C3, as amended. Whatever the argument, every record that
  \<^verbatim>\<open>parseCSVToTestCases\<close> returns has an id and a title that are non-empty after
  trimming. A data row whose id cell is empty adds no record, whatever its other cells
  hold, when that cell is under a header \<^verbatim>\<open>TestID\<close> or \<^verbatim>\<open>Test ID\<close> (in any case of the
  letters) after which no further header sets the id, that is, none is \<^verbatim>\<open>testid\<close>,
  \<^verbatim>\<open>test id\<close> or \<^verbatim>\<open>id\<close> in lower case.
\<close>

theorem C3_required_fields:
  "(testCase \<in> set (parseCSVToTestCases csvContent)
      \<longrightarrow> (\<exists>i t. tc_id testCase = Some i \<and> trim i \<noteq> []
                 \<and> tc_title testCase = Some t \<and> trim t \<noteq> []))
   \<and> ((toLowerCase h = ''testid'' \<or> toLowerCase h = ''test id'')
       \<and> (\<forall>h'\<in>set hs2. toLowerCase h' \<noteq> ''testid'' \<and> toLowerCase h' \<noteq> ''test id''
              \<and> toLowerCase h' \<noteq> ''id'')
       \<and> valueAt (parseCSVLine line) (length hs1) = []
      \<longrightarrow> dataLoop (hs1 @ h # hs2) (line # rest) testCases
          = dataLoop (hs1 @ h # hs2) rest testCases)"
proof (intro conjI impI)
  assume "testCase \<in> set (parseCSVToTestCases csvContent)"
  then have "\<exists>lines testCases. parseLines lines = Inr testCases \<and> testCase \<in> set testCases"
    by (cases csvContent)
       (auto simp: parseCSVToTestCases_def split: if_splits sum.splits dest: sym)
  then show "\<exists>i t. tc_id testCase = Some i \<and> trim i \<noteq> []
               \<and> tc_title testCase = Some t \<and> trim t \<noteq> []"
    by (auto dest: parseLines_required_fields)
next
  assume a: "(toLowerCase h = ''testid'' \<or> toLowerCase h = ''test id'')
       \<and> (\<forall>h'\<in>set hs2. toLowerCase h' \<noteq> ''testid'' \<and> toLowerCase h' \<noteq> ''test id''
              \<and> toLowerCase h' \<noteq> ''id'')
       \<and> valueAt (parseCSVLine line) (length hs1) = []"
  then have "tc_id (mapHeaders (hs1 @ h # hs2) 0 (parseCSVLine line) emptyTestCase)
               = Some (valueAt (parseCSVLine line) (length hs1))"
    by (intro mapHeaders_id_cell) blast+
  with a have "tc_id (mapHeaders (hs1 @ h # hs2) 0 (parseCSVLine line) emptyTestCase) = Some []"
    by simp
  then show "dataLoop (hs1 @ h # hs2) (line # rest) testCases
               = dataLoop (hs1 @ h # hs2) rest testCases"
    by (simp add: Let_def)
qed

theorem C3_required_fields_witness:
  "emptyTestCase\<lparr>tc_id := Some ''TC-1'', tc_title := Some ''Login''\<rparr>
     \<in> set (parseCSVToTestCases (JSString (''TestID,Title'' @ [newline] @ '',Lost''
                                              @ [newline] @ ''TC-1,Login'')))
   \<and> (\<exists>i t. tc_id (emptyTestCase\<lparr>tc_id := Some ''TC-1'', tc_title := Some ''Login''\<rparr>) = Some i
          \<and> trim i \<noteq> []
          \<and> tc_title (emptyTestCase\<lparr>tc_id := Some ''TC-1'', tc_title := Some ''Login''\<rparr>) = Some t
          \<and> trim t \<noteq> [])
   \<and> toLowerCase ''TestID'' = ''testid''
   \<and> toLowerCase ''Title'' \<noteq> ''testid'' \<and> toLowerCase ''Title'' \<noteq> ''test id''
   \<and> toLowerCase ''Title'' \<noteq> ''id''
   \<and> valueAt (parseCSVLine '',Lost'') (length ([] :: string list)) = []
   \<and> dataLoop ([] @ ''TestID'' # [''Title'']) ['',Lost'', ''TC-1,Login''] []
       = dataLoop ([] @ ''TestID'' # [''Title'']) [''TC-1,Login''] []"
proof -
  let ?tc = "emptyTestCase\<lparr>tc_id := Some ''TC-1'', tc_title := Some ''Login''\<rparr>"
  let ?input = "JSString (''TestID,Title'' @ [newline] @ '',Lost'' @ [newline] @ ''TC-1,Login'')"
  have "parseCSVToTestCases ?input = [?tc]" by code_simp
  then have m: "?tc \<in> set (parseCSVToTestCases ?input)" by simp
  have h: "toLowerCase ''TestID'' = ''testid''" by code_simp
  have t1: "toLowerCase ''Title'' \<noteq> ''testid''" by code_simp
  have t2: "toLowerCase ''Title'' \<noteq> ''test id''" by code_simp
  have t3: "toLowerCase ''Title'' \<noteq> ''id''" by code_simp
  have e: "valueAt (parseCSVLine '',Lost'') (length ([] :: string list)) = []" by code_simp
  from h t1 t2 t3 e
  have p: "(toLowerCase ''TestID'' = ''testid'' \<or> toLowerCase ''TestID'' = ''test id'')
       \<and> (\<forall>h'\<in>set [''Title'']. toLowerCase h' \<noteq> ''testid'' \<and> toLowerCase h' \<noteq> ''test id''
              \<and> toLowerCase h' \<noteq> ''id'')
       \<and> valueAt (parseCSVLine '',Lost'') (length ([] :: string list)) = []"
    by simp
  note C3 = C3_required_fields [where testCase = ?tc and csvContent = ?input and h = "''TestID''"
      and ?hs2.0 = "[''Title'']" and ?hs1.0 = "[]" and line = "'',Lost''"
      and rest = "[''TC-1,Login'']" and testCases = "[]"]
  from C3 m have "\<exists>i t. tc_id ?tc = Some i \<and> trim i \<noteq> [] \<and> tc_title ?tc = Some t \<and> trim t \<noteq> []"
    by blast
  moreover from C3 p
  have "dataLoop ([] @ ''TestID'' # [''Title'']) ['',Lost'', ''TC-1,Login''] []
          = dataLoop ([] @ ''TestID'' # [''Title'']) [''TC-1,Login''] []"
    by blast
  ultimately show ?thesis using m h t1 t2 t3 e by blast
qed

text \<open>
  The claim as stated fails when a later column sets the id again. On the lines
  \<^verbatim>\<open>TestID,Title,ID\<close> and \<^verbatim>\<open>,Lost,X\<close> the cell under \<^verbatim>\<open>TestID\<close> is empty, yet the row is
  returned, with the id \<^verbatim>\<open>X\<close> of the column \<^verbatim>\<open>ID\<close>; the same happens with a second
  column \<^verbatim>\<open>TestID\<close>.
\<close>

theorem C3_counterexample:
  "valueAt (parseCSVLine '',Lost,X'') 0 = []
   \<and> parseCSVToTestCases (JSString (''TestID,Title,ID'' @ [newline] @ '',Lost,X''))
       = [emptyTestCase\<lparr>tc_id := Some ''X'', tc_title := Some ''Lost''\<rparr>]
   \<and> parseCSVToTestCases (JSString (''TestID,Title,TestID'' @ [newline] @ '',Lost,X''))
       = [emptyTestCase\<lparr>tc_id := Some ''X'', tc_title := Some ''Lost''\<rparr>]"
  by code_simp

section \<open>No exception reaches the caller\<close>

lemma findIndex_None: "findIndex p xs = None \<longleftrightarrow> (\<forall>x\<in>set xs. \<not> p x)"
  by (induction xs) (auto split: option.splits)

text \<open>The index that \<^verbatim>\<open>findIndex\<close> returns is an index of the array.\<close>

lemma findIndex_Some: "findIndex p xs = Some i \<Longrightarrow> i < length xs \<and> p (xs ! i)"
  by (induction xs arbitrary: i) (auto split: option.splits if_splits)

lemma parseLines_no_error: "\<exists>testCases. parseLines lines = Inr testCases"
  by (auto simp: parseLines_def split: option.splits dest: findIndex_Some)

text \<open>
  Claim C2. On a string the body of the \<^verbatim>\<open>try\<close> block raises nothing; when no line of
  the trimmed input is a header line the result is the empty sequence; and whenever the
  body raises, whatever the argument, the result is the empty sequence.
\<close>

theorem C2_never_raises:
  "(\<exists>testCases. tryBody (JSString s) = Inr testCases)
   \<and> ((\<forall>line\<in>set (splitOn newline (trim s)). \<not> isHeaderLine line)
        \<longrightarrow> parseCSVToTestCases (JSString s) = [])
   \<and> (tryBody v = Inl e \<longrightarrow> parseCSVToTestCases v = [])"
proof (intro conjI impI)
  show "\<exists>testCases. tryBody (JSString s) = Inr testCases"
    by (simp add: parseLines_no_error)
next
  assume "\<forall>line\<in>set (splitOn newline (trim s)). \<not> isHeaderLine line"
  then have "findIndex isHeaderLine (splitOn newline (trim s)) = None"
    by (simp add: findIndex_None)
  then show "parseCSVToTestCases (JSString s) = []"
    by (simp add: parseCSVToTestCases_def parseLines_def)
next
  assume "tryBody v = Inl e"
  then show "parseCSVToTestCases v = []" by (simp add: parseCSVToTestCases_def)
qed

theorem C2_never_raises_witness:
  "splitOn newline (trim (''Generated cases'' @ [newline] @ ''TC-1,Login''))
     = [''Generated cases'', ''TC-1,Login'']
   \<and> \<not> isHeaderLine ''Generated cases'' \<and> \<not> isHeaderLine ''TC-1,Login''
   \<and> parseCSVToTestCases (JSString (''Generated cases'' @ [newline] @ ''TC-1,Login'')) = []
   \<and> tryBody (JSNumber 1) = Inl TypeError
   \<and> parseCSVToTestCases (JSNumber 1) = []"
proof -
  let ?s = "''Generated cases'' @ [newline] @ ''TC-1,Login''"
  have l: "splitOn newline (trim ?s) = [''Generated cases'', ''TC-1,Login'']" by code_simp
  have h1: "\<not> isHeaderLine ''Generated cases''" by code_simp
  have h2: "\<not> isHeaderLine ''TC-1,Login''" by code_simp
  have b: "tryBody (JSNumber 1) = Inl TypeError" by simp
  note C2 = C2_never_raises [of ?s "JSNumber 1" TypeError]
  from h1 h2 have "\<forall>line\<in>set (splitOn newline (trim ?s)). \<not> isHeaderLine line"
    unfolding l by simp
  with C2 have "parseCSVToTestCases (JSString ?s) = []" by blast
  moreover from C2 b have "parseCSVToTestCases (JSNumber 1) = []" by blast
  ultimately show ?thesis using l h1 h2 b by blast
qed

section \<open>The names of the columns\<close>

lemma splitOn_nonempty: "splitOn d s \<noteq> []"
  by (induction s) (auto split: list.splits)

lemma splitOn_subset: "p \<in> set (splitOn d s) \<Longrightarrow> set p \<subseteq> set s"
proof (induction s arbitrary: p)
  case Nil
  then show ?case by simp
next
  case (Cons c s)
  obtain q qs where q: "splitOn d s = q # qs"
    using splitOn_nonempty [of d s] by (cases "splitOn d s") auto
  show ?case
  proof (cases "c = d")
    case True
    with Cons.prems have "p = [] \<or> p \<in> set (splitOn d s)" by simp
    with Cons.IH show ?thesis by auto
  next
    case False
    with Cons.prems q have "p = c # q \<or> p \<in> set qs" by simp
    moreover have "set q \<subseteq> set s" using Cons.IH [of q] q by simp
    moreover have "p \<in> set qs \<Longrightarrow> set p \<subseteq> set s" using Cons.IH [of p] q by simp
    ultimately show ?thesis by auto
  qed
qed

text \<open>On a line without quotes the tokenizer splits at the commas and trims.\<close>

lemma parseCSVLine_loop_unquoted:
  "dquote \<notin> set line \<Longrightarrow>
     parseCSVLine_loop line result current False
       = result @ (case splitOn comma line of
                     [] \<Rightarrow> []
                   | p # ps \<Rightarrow> trim (current @ p) # map trim ps)"
proof (induction line arbitrary: result current)
  case Nil
  show ?case by simp
next
  case (Cons c line)
  obtain q qs where q: "splitOn comma line = q # qs"
    using splitOn_nonempty [of comma line] by (cases "splitOn comma line") auto
  from Cons.prems have c: "c \<noteq> dquote" and l: "dquote \<notin> set line" by auto
  show ?case
  proof (cases "c = comma")
    case True
    then show ?thesis using Cons.IH [OF l] q by simp
  next
    case False
    then show ?thesis using Cons.IH [OF l] q c by simp
  qed
qed

lemma parseCSVLine_unquoted:
  "dquote \<notin> set line \<Longrightarrow> parseCSVLine line = map trim (splitOn comma line)"
  using splitOn_nonempty [of comma line]
  by (cases "splitOn comma line") (simp_all add: parseCSVLine_def parseCSVLine_loop_unquoted)

text \<open>A header line of names wrapped in quotes gives the names back.\<close>

lemma parseHeaders_quoted:
  assumes "cells \<noteq> []" and "\<forall>c\<in>set cells. comma \<notin> set c \<and> dquote \<notin> set c"
  shows "parseHeaders (joinWith '','' (map (\<lambda>c. dquote # c @ [dquote]) cells)) = cells"
proof -
  let ?w = "\<lambda>c. dquote # c @ [dquote]"
  have "splitOn comma (joinWith [comma] (map ?w cells)) = map ?w cells"
    using assms by (intro splitOn_joinWith) auto
  moreover have "filter (\<lambda>x. x \<noteq> dquote) (trim (?w c)) = c" if "c \<in> set cells" for c
  proof -
    have "trim (?w c) = ?w c" by (rule trim_fixed) (simp add: isWhiteSpace_def)
    moreover have "dquote \<notin> set c" using that assms by simp
    ultimately show ?thesis by (auto simp: filter_id_conv)
  qed
  ultimately show ?thesis by (simp add: parseHeaders_def map_idI)
qed

text \<open>
  Claim C9, as amended. The header line does not go through the tokenizer of the data
  rows: it is cut into pieces, each piece is trimmed, and then every quote character of
  the piece is deleted, so no column name contains a quote. On a header line without
  quote characters the column names are exactly the fields the tokenizer returns, and a
  header line of names wrapped in quotes, the names free of commas and quotes, yields the
  names.
\<close>

theorem C9_header_names:
  "(\<forall>h\<in>set (parseHeaders line). dquote \<notin> set h)
   \<and> (dquote \<notin> set line \<longrightarrow> parseHeaders line = parseCSVLine line)
   \<and> (cells \<noteq> [] \<and> (\<forall>c\<in>set cells. comma \<notin> set c \<and> dquote \<notin> set c)
        \<longrightarrow> parseHeaders (joinWith '','' (map (\<lambda>c. dquote # c @ [dquote]) cells)) = cells)"
proof (intro conjI impI)
  show "\<forall>h\<in>set (parseHeaders line). dquote \<notin> set h"
    by (auto simp: parseHeaders_def)
next
  assume nq: "dquote \<notin> set line"
  have "filter (\<lambda>c. c \<noteq> dquote) (trim h) = trim h" if "h \<in> set (splitOn comma line)" for h
  proof -
    have "set (trim h) \<subseteq> set line" using set_trim [of h] splitOn_subset [OF that] by blast
    with nq show ?thesis by (auto simp: filter_id_conv)
  qed
  then show "parseHeaders line = parseCSVLine line"
    by (simp add: parseHeaders_def parseCSVLine_unquoted [OF nq])
next
  assume "cells \<noteq> [] \<and> (\<forall>c\<in>set cells. comma \<notin> set c \<and> dquote \<notin> set c)"
  then show "parseHeaders (joinWith '','' (map (\<lambda>c. dquote # c @ [dquote]) cells)) = cells"
    by (simp add: parseHeaders_quoted)
qed

theorem C9_header_names_witness:
  "dquote \<notin> set ''TestID, Title ,Steps''
   \<and> parseCSVLine ''TestID, Title ,Steps'' = [''TestID'', ''Title'', ''Steps'']
   \<and> parseHeaders ''TestID, Title ,Steps'' = [''TestID'', ''Title'', ''Steps'']
   \<and> [''Test ID'', ''Title''] \<noteq> []
   \<and> comma \<notin> set ''Test ID'' \<and> dquote \<notin> set ''Test ID''
   \<and> comma \<notin> set ''Title'' \<and> dquote \<notin> set ''Title''
   \<and> parseHeaders (joinWith '','' (map (\<lambda>c. dquote # c @ [dquote]) [''Test ID'', ''Title'']))
       = [''Test ID'', ''Title'']"
proof -
  have 1: "dquote \<notin> set ''TestID, Title ,Steps''" by simp
  have 2: "parseCSVLine ''TestID, Title ,Steps'' = [''TestID'', ''Title'', ''Steps'']"
    by code_simp
  have 3: "[''Test ID'', ''Title''] \<noteq> []
           \<and> (\<forall>c\<in>set [''Test ID'', ''Title'']. comma \<notin> set c \<and> dquote \<notin> set c)"
    by simp
  note C9 = C9_header_names [of "''TestID, Title ,Steps''" "[''Test ID'', ''Title'']"]
  from C9 1 2 have "parseHeaders ''TestID, Title ,Steps'' = [''TestID'', ''Title'', ''Steps'']"
    by simp
  moreover from C9 3
  have "parseHeaders (joinWith '','' (map (\<lambda>c. dquote # c @ [dquote]) [''Test ID'', ''Title'']))
          = [''Test ID'', ''Title'']"
    by blast
  ultimately show ?thesis using 1 2 by simp
qed

text \<open>
  The claim as stated fails on the header line \<^verbatim>\<open>"Test,ID",Title\<close>, where the tokenizer
  finds two fields and the parser three column names, and on \<^verbatim>\<open>" TestID ",Title\<close>, where
  the blanks inside the quotes stay in the column name.
\<close>

theorem C9_counterexample:
  "parseHeaders ([dquote] @ ''Test,ID'' @ [dquote] @ '',Title'') = [''Test'', ''ID'', ''Title'']
   \<and> parseCSVLine ([dquote] @ ''Test,ID'' @ [dquote] @ '',Title'') = [''Test,ID'', ''Title'']
   \<and> parseHeaders ([dquote] @ '' TestID '' @ [dquote] @ '',Title'') = ['' TestID '', ''Title'']
   \<and> parseCSVLine ([dquote] @ '' TestID '' @ [dquote] @ '',Title'') = [''TestID'', ''Title'']"
  by code_simp

section \<open>From the raw text to the exported rows\<close>

text \<open>The export of the one record of the scenario, whatever the report: only the last cell
  depends on it.\<close>

lemma login_export:
  "handleExport_csv numberToString report
     [\<lparr>tc_id = Some ''TC-001'', tc_title = Some ''Login works'',
         tc_steps = Some [''Enter user'', ''Click login''],
         tc_expected = Some ''User is logged in'', tc_priority = Some ''High'',
         tc_category = None, tc_type = None, tc_qualityScore = None,
         tc_testData = None, tc_extra = []\<rparr>]
   = Some (''Test ID,Title,Steps,Expected Result,Priority,Quality Score'' @ [newline]
         @ ''TC-001,'' @ [dquote] @ ''Login works'' @ [dquote] @ '',''
         @ [dquote] @ ''Enter user | Click login'' @ [dquote] @ '',''
         @ [dquote] @ ''User is logged in'' @ [dquote] @ '',High,''
         @ scoreCell numberToString (lookupScore report
             \<lparr>tc_id = Some ''TC-001'', tc_title = Some ''Login works'',
         tc_steps = Some [''Enter user'', ''Click login''],
         tc_expected = Some ''User is logged in'', tc_priority = Some ''High'',
         tc_category = None, tc_type = None, tc_qualityScore = None,
         tc_testData = None, tc_extra = []\<rparr>)
         @ [newline])"
  by (simp add: handleExport_csv_def csvRow_def csvHeaders_def element_def template_def Let_def)

text \<open>
  Claim C1, as amended. The input of the two lines
  \<^verbatim>\<open>TestID,Title,Steps,Expected Result,Priority\<close> and
  \<^verbatim>\<open>TC-001,Login works,"Enter user|Click login",User is logged in,High\<close>
  parses to exactly one record, with the id, title, steps, expected result and priority
  of the claim and no other property. The plain CSV export of that sequence is the header
  row followed by the data row
  \<^verbatim>\<open>TC-001,"Login works","Enter user | Click login","User is logged in",High,N/A\<close>
  whenever the quality report of the component holds no positive score for \<^verbatim>\<open>TC-001\<close>:
  there is no report, or the report has no \<^verbatim>\<open>individual_scores\<close>, or no entry of them
  names \<^verbatim>\<open>TC-001\<close>, or the first entry that does has no \<^verbatim>\<open>total_score\<close> or one that is
  not positive.
\<close>

theorem C1_end_to_end:
  "parseCSVToTestCases
     (JSString (''TestID,Title,Steps,Expected Result,Priority'' @ [newline]
        @ ''TC-001,Login works,'' @ [dquote] @ ''Enter user|Click login'' @ [dquote]
        @ '',User is logged in,High''))
     = [\<lparr>tc_id = Some ''TC-001'', tc_title = Some ''Login works'',
         tc_steps = Some [''Enter user'', ''Click login''],
         tc_expected = Some ''User is logged in'', tc_priority = Some ''High'',
         tc_category = None, tc_type = None, tc_qualityScore = None,
         tc_testData = None, tc_extra = []\<rparr>]
   \<and> handleExport_csv numberToString None
        [\<lparr>tc_id = Some ''TC-001'', tc_title = Some ''Login works'',
         tc_steps = Some [''Enter user'', ''Click login''],
         tc_expected = Some ''User is logged in'', tc_priority = Some ''High'',
         tc_category = None, tc_type = None, tc_qualityScore = None,
         tc_testData = None, tc_extra = []\<rparr>]
       = Some (''Test ID,Title,Steps,Expected Result,Priority,Quality Score'' @ [newline]
         @ ''TC-001,'' @ [dquote] @ ''Login works'' @ [dquote] @ '',''
         @ [dquote] @ ''Enter user | Click login'' @ [dquote] @ '',''
         @ [dquote] @ ''User is logged in'' @ [dquote] @ '',High,N/A'' @ [newline])
   \<and> (individual_scores r = None
        \<longrightarrow> handleExport_csv numberToString (Some r)
              [\<lparr>tc_id = Some ''TC-001'', tc_title = Some ''Login works'',
         tc_steps = Some [''Enter user'', ''Click login''],
         tc_expected = Some ''User is logged in'', tc_priority = Some ''High'',
         tc_category = None, tc_type = None, tc_qualityScore = None,
         tc_testData = None, tc_extra = []\<rparr>]
            = Some (''Test ID,Title,Steps,Expected Result,Priority,Quality Score'' @ [newline]
         @ ''TC-001,'' @ [dquote] @ ''Login works'' @ [dquote] @ '',''
         @ [dquote] @ ''Enter user | Click login'' @ [dquote] @ '',''
         @ [dquote] @ ''User is logged in'' @ [dquote] @ '',High,N/A'' @ [newline]))
   \<and> (individual_scores r = Some entries \<and> find (\<lambda>s. test_id s = Some ''TC-001'') entries = None
        \<longrightarrow> handleExport_csv numberToString (Some r)
              [\<lparr>tc_id = Some ''TC-001'', tc_title = Some ''Login works'',
         tc_steps = Some [''Enter user'', ''Click login''],
         tc_expected = Some ''User is logged in'', tc_priority = Some ''High'',
         tc_category = None, tc_type = None, tc_qualityScore = None,
         tc_testData = None, tc_extra = []\<rparr>]
            = Some (''Test ID,Title,Steps,Expected Result,Priority,Quality Score'' @ [newline]
         @ ''TC-001,'' @ [dquote] @ ''Login works'' @ [dquote] @ '',''
         @ [dquote] @ ''Enter user | Click login'' @ [dquote] @ '',''
         @ [dquote] @ ''User is logged in'' @ [dquote] @ '',High,N/A'' @ [newline]))
   \<and> (individual_scores r = Some entries \<and> find (\<lambda>s. test_id s = Some ''TC-001'') entries = Some e
          \<and> total_score e = None
        \<longrightarrow> handleExport_csv numberToString (Some r)
              [\<lparr>tc_id = Some ''TC-001'', tc_title = Some ''Login works'',
         tc_steps = Some [''Enter user'', ''Click login''],
         tc_expected = Some ''User is logged in'', tc_priority = Some ''High'',
         tc_category = None, tc_type = None, tc_qualityScore = None,
         tc_testData = None, tc_extra = []\<rparr>]
            = Some (''Test ID,Title,Steps,Expected Result,Priority,Quality Score'' @ [newline]
         @ ''TC-001,'' @ [dquote] @ ''Login works'' @ [dquote] @ '',''
         @ [dquote] @ ''Enter user | Click login'' @ [dquote] @ '',''
         @ [dquote] @ ''User is logged in'' @ [dquote] @ '',High,N/A'' @ [newline]))
   \<and> (individual_scores r = Some entries \<and> find (\<lambda>s. test_id s = Some ''TC-001'') entries = Some e
          \<and> total_score e = Some x \<and> x \<le> 0
        \<longrightarrow> handleExport_csv numberToString (Some r)
              [\<lparr>tc_id = Some ''TC-001'', tc_title = Some ''Login works'',
         tc_steps = Some [''Enter user'', ''Click login''],
         tc_expected = Some ''User is logged in'', tc_priority = Some ''High'',
         tc_category = None, tc_type = None, tc_qualityScore = None,
         tc_testData = None, tc_extra = []\<rparr>]
            = Some (''Test ID,Title,Steps,Expected Result,Priority,Quality Score'' @ [newline]
         @ ''TC-001,'' @ [dquote] @ ''Login works'' @ [dquote] @ '',''
         @ [dquote] @ ''Enter user | Click login'' @ [dquote] @ '',''
         @ [dquote] @ ''User is logged in'' @ [dquote] @ '',High,N/A'' @ [newline]))"
proof (intro conjI impI)
  show "parseCSVToTestCases
     (JSString (''TestID,Title,Steps,Expected Result,Priority'' @ [newline]
        @ ''TC-001,Login works,'' @ [dquote] @ ''Enter user|Click login'' @ [dquote]
        @ '',User is logged in,High''))
     = [\<lparr>tc_id = Some ''TC-001'', tc_title = Some ''Login works'',
         tc_steps = Some [''Enter user'', ''Click login''],
         tc_expected = Some ''User is logged in'', tc_priority = Some ''High'',
         tc_category = None, tc_type = None, tc_qualityScore = None,
         tc_testData = None, tc_extra = []\<rparr>]"
    by code_simp
qed (simp_all add: login_export lookupScore_def scoreCell_def)

theorem C1_end_to_end_witness:
  "handleExport_csv notConsulted (Some \<lparr>individual_scores = None\<rparr>)
        [\<lparr>tc_id = Some ''TC-001'', tc_title = Some ''Login works'',
         tc_steps = Some [''Enter user'', ''Click login''],
         tc_expected = Some ''User is logged in'', tc_priority = Some ''High'',
         tc_category = None, tc_type = None, tc_qualityScore = None,
         tc_testData = None, tc_extra = []\<rparr>]
       = Some (''Test ID,Title,Steps,Expected Result,Priority,Quality Score'' @ [newline]
         @ ''TC-001,'' @ [dquote] @ ''Login works'' @ [dquote] @ '',''
         @ [dquote] @ ''Enter user | Click login'' @ [dquote] @ '',''
         @ [dquote] @ ''User is logged in'' @ [dquote] @ '',High,N/A'' @ [newline])
   \<and> handleExport_csv notConsulted (Some \<lparr>individual_scores = Some []\<rparr>)
        [\<lparr>tc_id = Some ''TC-001'', tc_title = Some ''Login works'',
         tc_steps = Some [''Enter user'', ''Click login''],
         tc_expected = Some ''User is logged in'', tc_priority = Some ''High'',
         tc_category = None, tc_type = None, tc_qualityScore = None,
         tc_testData = None, tc_extra = []\<rparr>]
       = Some (''Test ID,Title,Steps,Expected Result,Priority,Quality Score'' @ [newline]
         @ ''TC-001,'' @ [dquote] @ ''Login works'' @ [dquote] @ '',''
         @ [dquote] @ ''Enter user | Click login'' @ [dquote] @ '',''
         @ [dquote] @ ''User is logged in'' @ [dquote] @ '',High,N/A'' @ [newline])
   \<and> handleExport_csv notConsulted
        (Some \<lparr>individual_scores = Some [\<lparr>test_id = Some ''TC-001'', total_score = None\<rparr>]\<rparr>)
        [\<lparr>tc_id = Some ''TC-001'', tc_title = Some ''Login works'',
         tc_steps = Some [''Enter user'', ''Click login''],
         tc_expected = Some ''User is logged in'', tc_priority = Some ''High'',
         tc_category = None, tc_type = None, tc_qualityScore = None,
         tc_testData = None, tc_extra = []\<rparr>]
       = Some (''Test ID,Title,Steps,Expected Result,Priority,Quality Score'' @ [newline]
         @ ''TC-001,'' @ [dquote] @ ''Login works'' @ [dquote] @ '',''
         @ [dquote] @ ''Enter user | Click login'' @ [dquote] @ '',''
         @ [dquote] @ ''User is logged in'' @ [dquote] @ '',High,N/A'' @ [newline])
   \<and> handleExport_csv notConsulted
        (Some \<lparr>individual_scores = Some [\<lparr>test_id = Some ''TC-001'', total_score = Some 0\<rparr>]\<rparr>)
        [\<lparr>tc_id = Some ''TC-001'', tc_title = Some ''Login works'',
         tc_steps = Some [''Enter user'', ''Click login''],
         tc_expected = Some ''User is logged in'', tc_priority = Some ''High'',
         tc_category = None, tc_type = None, tc_qualityScore = None,
         tc_testData = None, tc_extra = []\<rparr>]
       = Some (''Test ID,Title,Steps,Expected Result,Priority,Quality Score'' @ [newline]
         @ ''TC-001,'' @ [dquote] @ ''Login works'' @ [dquote] @ '',''
         @ [dquote] @ ''Enter user | Click login'' @ [dquote] @ '',''
         @ [dquote] @ ''User is logged in'' @ [dquote] @ '',High,N/A'' @ [newline])"
proof -
  let ?e1 = "\<lparr>test_id = Some ''TC-001'', total_score = None :: rat option\<rparr>"
  let ?e2 = "\<lparr>test_id = Some ''TC-001'', total_score = Some (0 :: rat)\<rparr>"
  note C1 = C1_end_to_end [where numberToString = notConsulted]
  have 1: "individual_scores \<lparr>individual_scores = None\<rparr> = None" by simp
  have 2: "individual_scores \<lparr>individual_scores = Some []\<rparr> = Some []
           \<and> find (\<lambda>s. test_id s = Some ''TC-001'') [] = None"
    by simp
  have 3: "individual_scores \<lparr>individual_scores = Some [?e1]\<rparr> = Some [?e1]
           \<and> find (\<lambda>s. test_id s = Some ''TC-001'') [?e1] = Some ?e1 \<and> total_score ?e1 = None"
    by simp
  have 4: "individual_scores \<lparr>individual_scores = Some [?e2]\<rparr> = Some [?e2]
           \<and> find (\<lambda>s. test_id s = Some ''TC-001'') [?e2] = Some ?e2
           \<and> total_score ?e2 = Some 0 \<and> (0 :: rat) \<le> 0"
    by simp
  from C1 [where r = "\<lparr>individual_scores = None\<rparr>"] 1
  have a: "handleExport_csv notConsulted (Some \<lparr>individual_scores = None\<rparr>)
        [\<lparr>tc_id = Some ''TC-001'', tc_title = Some ''Login works'',
         tc_steps = Some [''Enter user'', ''Click login''],
         tc_expected = Some ''User is logged in'', tc_priority = Some ''High'',
         tc_category = None, tc_type = None, tc_qualityScore = None,
         tc_testData = None, tc_extra = []\<rparr>]
       = Some (''Test ID,Title,Steps,Expected Result,Priority,Quality Score'' @ [newline]
         @ ''TC-001,'' @ [dquote] @ ''Login works'' @ [dquote] @ '',''
         @ [dquote] @ ''Enter user | Click login'' @ [dquote] @ '',''
         @ [dquote] @ ''User is logged in'' @ [dquote] @ '',High,N/A'' @ [newline])"
    by blast
  from C1 [where r = "\<lparr>individual_scores = Some []\<rparr>" and entries = "[]"] 2
  have b: "handleExport_csv notConsulted (Some \<lparr>individual_scores = Some []\<rparr>)
        [\<lparr>tc_id = Some ''TC-001'', tc_title = Some ''Login works'',
         tc_steps = Some [''Enter user'', ''Click login''],
         tc_expected = Some ''User is logged in'', tc_priority = Some ''High'',
         tc_category = None, tc_type = None, tc_qualityScore = None,
         tc_testData = None, tc_extra = []\<rparr>]
       = Some (''Test ID,Title,Steps,Expected Result,Priority,Quality Score'' @ [newline]
         @ ''TC-001,'' @ [dquote] @ ''Login works'' @ [dquote] @ '',''
         @ [dquote] @ ''Enter user | Click login'' @ [dquote] @ '',''
         @ [dquote] @ ''User is logged in'' @ [dquote] @ '',High,N/A'' @ [newline])"
    by blast
  from C1 [where r = "\<lparr>individual_scores = Some [?e1]\<rparr>" and entries = "[?e1]" and e = ?e1] 3
  have c: "handleExport_csv notConsulted (Some \<lparr>individual_scores = Some [?e1]\<rparr>)
        [\<lparr>tc_id = Some ''TC-001'', tc_title = Some ''Login works'',
         tc_steps = Some [''Enter user'', ''Click login''],
         tc_expected = Some ''User is logged in'', tc_priority = Some ''High'',
         tc_category = None, tc_type = None, tc_qualityScore = None,
         tc_testData = None, tc_extra = []\<rparr>]
       = Some (''Test ID,Title,Steps,Expected Result,Priority,Quality Score'' @ [newline]
         @ ''TC-001,'' @ [dquote] @ ''Login works'' @ [dquote] @ '',''
         @ [dquote] @ ''Enter user | Click login'' @ [dquote] @ '',''
         @ [dquote] @ ''User is logged in'' @ [dquote] @ '',High,N/A'' @ [newline])"
    by blast
  from C1 [where r = "\<lparr>individual_scores = Some [?e2]\<rparr>" and entries = "[?e2]" and e = ?e2
      and x = 0] 4
  have d: "handleExport_csv notConsulted (Some \<lparr>individual_scores = Some [?e2]\<rparr>)
        [\<lparr>tc_id = Some ''TC-001'', tc_title = Some ''Login works'',
         tc_steps = Some [''Enter user'', ''Click login''],
         tc_expected = Some ''User is logged in'', tc_priority = Some ''High'',
         tc_category = None, tc_type = None, tc_qualityScore = None,
         tc_testData = None, tc_extra = []\<rparr>]
       = Some (''Test ID,Title,Steps,Expected Result,Priority,Quality Score'' @ [newline]
         @ ''TC-001,'' @ [dquote] @ ''Login works'' @ [dquote] @ '',''
         @ [dquote] @ ''Enter user | Click login'' @ [dquote] @ '',''
         @ [dquote] @ ''User is logged in'' @ [dquote] @ '',High,N/A'' @ [newline])"
    by blast
  from a b c d show ?thesis by blast
qed

text \<open>
  The claim as stated, of the export whatever the state of the component, fails when the
  report scores \<^verbatim>\<open>TC-001\<close> at 8: the same record sequence is exported with the last cell
  \<^verbatim>\<open>8.0/10\<close>.
\<close>

theorem C1_counterexample:
  "handleExport_csv notConsulted
     (Some \<lparr>individual_scores = Some [\<lparr>test_id = Some ''TC-001'', total_score = Some 8\<rparr>]\<rparr>)
     (parseCSVToTestCases
        (JSString (''TestID,Title,Steps,Expected Result,Priority'' @ [newline]
        @ ''TC-001,Login works,'' @ [dquote] @ ''Enter user|Click login'' @ [dquote]
        @ '',User is logged in,High'')))
   = Some (''Test ID,Title,Steps,Expected Result,Priority,Quality Score'' @ [newline]
         @ ''TC-001,'' @ [dquote] @ ''Login works'' @ [dquote] @ '',''
         @ [dquote] @ ''Enter user | Click login'' @ [dquote] @ '',''
         @ [dquote] @ ''User is logged in'' @ [dquote] @ '',High,8.0/10'' @ [newline])"
  by code_simp

section \<open>The cells of the Zephyr export\<close>

text \<open>
  Claim C7 does not hold of the code. For the record that the parser returns on the lines
  \<^verbatim>\<open>TestID,Title,Steps,Expected Result,Priority,Category,Type\<close> and
  \<^verbatim>\<open>TC-001,Login,Open page,OK,High,Functional,Smoke\<close>, the Labels cell of the Zephyr row
  is \<^verbatim>\<open>Functional, Smoke\<close>: it holds a comma and is not the escaped form
  \<^verbatim>\<open>"Functional, Smoke"\<close>. The row of 17 cells, joined by commas, reads back as 18
  fields.
\<close>

theorem C7_labels_not_escaped:
  "parseCSVToTestCases
     (JSString (''TestID,Title,Steps,Expected Result,Priority,Category,Type'' @ [newline]
        @ ''TC-001,Login,Open page,OK,High,Functional,Smoke''))
     = [\<lparr>tc_id = Some ''TC-001'', tc_title = Some ''Login'', tc_steps = Some [''Open page''],
         tc_expected = Some ''OK'', tc_priority = Some ''High'',
         tc_category = Some ''Functional'', tc_type = Some ''Smoke'', tc_qualityScore = None,
         tc_testData = None, tc_extra = []\<rparr>]
   \<and> zephyrRow
        \<lparr>tc_id = Some ''TC-001'', tc_title = Some ''Login'', tc_steps = Some [''Open page''],
         tc_expected = Some ''OK'', tc_priority = Some ''High'',
         tc_category = Some ''Functional'', tc_type = Some ''Smoke'', tc_qualityScore = None,
         tc_testData = None, tc_extra = []\<rparr> ! 7
     = ''Functional, Smoke''
   \<and> escapeCSVField ''Functional, Smoke'' = [dquote] @ ''Functional, Smoke'' @ [dquote]
   \<and> length zephyrHeaders = 17
   \<and> length (zephyrRow
        \<lparr>tc_id = Some ''TC-001'', tc_title = Some ''Login'', tc_steps = Some [''Open page''],
         tc_expected = Some ''OK'', tc_priority = Some ''High'',
         tc_category = Some ''Functional'', tc_type = Some ''Smoke'', tc_qualityScore = None,
         tc_testData = None, tc_extra = []\<rparr>) = 17
   \<and> length (parseCSVLine (joinWith '',''
        (zephyrRow
          \<lparr>tc_id = Some ''TC-001'', tc_title = Some ''Login'', tc_steps = Some [''Open page''],
           tc_expected = Some ''OK'', tc_priority = Some ''High'',
           tc_category = Some ''Functional'', tc_type = Some ''Smoke'', tc_qualityScore = None,
           tc_testData = None, tc_extra = []\<rparr>))) = 18"
  by code_simp

section \<open>The Quality Score cell of the plain CSV export\<close>

lemma csvRow_score:
  "csvRow numberToString report testCase ! 5
     = scoreCell numberToString (lookupScore report testCase)"
  by (simp add: csvRow_def Let_def)

lemma lookupScore_qualityScore:
  "lookupScore report (testCase\<lparr>tc_qualityScore := q\<rparr>) = lookupScore report testCase"
  by (simp add: lookupScore_def split: option.splits)

lemma csvRow_qualityScore:
  "csvRow numberToString report (testCase\<lparr>tc_qualityScore := q\<rparr>)
     = csvRow numberToString report testCase"
  by (simp add: csvRow_def lookupScore_qualityScore)

text \<open>Below \<open>10^21\<close>, \<^verbatim>\<open>toFixed(1)\<close> prints the tenths nearest to the number.\<close>

lemma toFixed1_nearest:
  assumes "0 < x" and "x < 10 ^ 21"
  shows "\<exists>k. toFixed1 numberToString x = showNat (k div 10) @ ''.'' @ showNat (k mod 10)
             \<and> \<bar>x * 10 - of_nat k\<bar> \<le> 1 / 2"
proof -
  define k where "k = nat \<lfloor>x * 10 + 1 / 2\<rfloor>"
  have nonneg: "0 \<le> \<lfloor>x * 10 + 1 / 2\<rfloor>" using assms(1) by simp
  then have "(of_nat k :: rat) = of_int \<lfloor>x * 10 + 1 / 2\<rfloor>" by (simp add: k_def)
  moreover have "of_int \<lfloor>x * 10 + 1 / 2\<rfloor> \<le> x * 10 + 1 / 2" by (rule of_int_floor_le)
  moreover have "x * 10 + 1 / 2 < of_int \<lfloor>x * 10 + 1 / 2\<rfloor> + 1"
    using floor_correct [of "x * 10 + 1 / 2"] by simp
  ultimately have "\<bar>x * 10 - of_nat k\<bar> \<le> 1 / 2" by linarith
  moreover have "\<bar>x\<bar> = x" and "\<not> x < 0" and "\<not> 10 ^ 21 \<le> x" using assms by simp_all
  then have "toFixed1 numberToString x = showNat (k div 10) @ ''.'' @ showNat (k mod 10)"
    by (simp add: toFixed1_def k_def Let_def)
  ultimately show ?thesis by blast
qed

text \<open>From \<open>10^21\<close> on it is the conversion of the language.\<close>

lemma toFixed1_large: "10 ^ 21 \<le> x \<Longrightarrow> toFixed1 numberToString x = numberToString x"
proof -
  assume l: "10 ^ 21 \<le> x"
  have "(0 :: rat) < 10 ^ 21" by simp
  with l have "0 < x" by linarith
  then have "\<bar>x\<bar> = x" and "\<not> x < 0" by simp_all
  with l show ?thesis by (simp add: toFixed1_def Let_def)
qed

text \<open>
  Claim C8, as amended. The Quality Score cell of the plain CSV export does not depend on
  the \<^verbatim>\<open>qualityScore\<close> of the record: it is taken from the quality report of the
  component. It is \<^verbatim>\<open>N/A\<close> when there is no report, when the report has no
  \<^verbatim>\<open>individual_scores\<close>, when no entry of them names the id of the record, and when the
  first entry that names it has no \<^verbatim>\<open>total_score\<close> or one that is not positive. When the
  score of that entry is positive the cell is \<^verbatim>\<open>toFixed(1)\<close> of the score followed by
  \<^verbatim>\<open>/10\<close>: for a score below \<open>10^21\<close> the score with one decimal (the nearest tenth),
  from \<open>10^21\<close> on the number as the language prints it, in exponent notation.
\<close>

theorem C8_quality_score_cell:
  "csvRow numberToString report (testCase\<lparr>tc_qualityScore := q\<rparr>)
     = csvRow numberToString report testCase
   \<and> csvRow numberToString None testCase ! 5 = ''N/A''
   \<and> (individual_scores r = None \<longrightarrow> csvRow numberToString (Some r) testCase ! 5 = ''N/A'')
   \<and> (individual_scores r = Some entries \<and> find (\<lambda>s. test_id s = tc_id testCase) entries = None
        \<longrightarrow> csvRow numberToString (Some r) testCase ! 5 = ''N/A'')
   \<and> (individual_scores r = Some entries \<and> find (\<lambda>s. test_id s = tc_id testCase) entries = Some e
          \<and> total_score e = None
        \<longrightarrow> csvRow numberToString (Some r) testCase ! 5 = ''N/A'')
   \<and> (individual_scores r = Some entries \<and> find (\<lambda>s. test_id s = tc_id testCase) entries = Some e
          \<and> total_score e = Some x
        \<longrightarrow> csvRow numberToString (Some r) testCase ! 5
            = (if 0 < x then toFixed1 numberToString x @ ''/10'' else ''N/A''))
   \<and> (0 < x \<and> x < 10 ^ 21
        \<longrightarrow> (\<exists>k. toFixed1 numberToString x = showNat (k div 10) @ ''.'' @ showNat (k mod 10)
                 \<and> \<bar>x * 10 - of_nat k\<bar> \<le> 1 / 2))
   \<and> (10 ^ 21 \<le> x \<longrightarrow> toFixed1 numberToString x = numberToString x)"
proof (intro conjI impI)
  show "csvRow numberToString report (testCase\<lparr>tc_qualityScore := q\<rparr>)
          = csvRow numberToString report testCase"
    by (rule csvRow_qualityScore)
  show "csvRow numberToString None testCase ! 5 = ''N/A''"
    by (simp add: csvRow_score lookupScore_def scoreCell_def)
next
  assume "individual_scores r = None"
  then show "csvRow numberToString (Some r) testCase ! 5 = ''N/A''"
    by (simp add: csvRow_score lookupScore_def scoreCell_def)
next
  assume "individual_scores r = Some entries \<and> find (\<lambda>s. test_id s = tc_id testCase) entries = None"
  then show "csvRow numberToString (Some r) testCase ! 5 = ''N/A''"
    by (simp add: csvRow_score lookupScore_def scoreCell_def)
next
  assume "individual_scores r = Some entries \<and> find (\<lambda>s. test_id s = tc_id testCase) entries = Some e
          \<and> total_score e = None"
  then show "csvRow numberToString (Some r) testCase ! 5 = ''N/A''"
    by (simp add: csvRow_score lookupScore_def scoreCell_def)
next
  assume "individual_scores r = Some entries \<and> find (\<lambda>s. test_id s = tc_id testCase) entries = Some e
          \<and> total_score e = Some x"
  then show "csvRow numberToString (Some r) testCase ! 5
            = (if 0 < x then toFixed1 numberToString x @ ''/10'' else ''N/A'')"
    by (simp add: csvRow_score lookupScore_def scoreCell_def)
next
  assume "0 < x \<and> x < 10 ^ 21"
  then have "0 < x" and "x < 10 ^ 21" by blast+
  then show "\<exists>k. toFixed1 numberToString x = showNat (k div 10) @ ''.'' @ showNat (k mod 10)
                 \<and> \<bar>x * 10 - of_nat k\<bar> \<le> 1 / 2"
    by (rule toFixed1_nearest)
next
  assume "10 ^ 21 \<le> x"
  then show "toFixed1 numberToString x = numberToString x" by (rule toFixed1_large)
qed

theorem C8_quality_score_cell_witness:
  "csvRow notConsulted (Some \<lparr>individual_scores = None\<rparr>)
     (emptyTestCase\<lparr>tc_id := Some ''TC-001''\<rparr>) ! 5 = ''N/A''
   \<and> csvRow notConsulted
       (Some \<lparr>individual_scores = Some [\<lparr>test_id = Some ''TC-001'', total_score = Some 9\<rparr>]\<rparr>)
       (emptyTestCase\<lparr>tc_id := Some ''TC-002''\<rparr>) ! 5 = ''N/A''
   \<and> csvRow notConsulted
       (Some \<lparr>individual_scores = Some [\<lparr>test_id = Some ''TC-001'', total_score = None\<rparr>]\<rparr>)
       (emptyTestCase\<lparr>tc_id := Some ''TC-001''\<rparr>) ! 5 = ''N/A''
   \<and> csvRow notConsulted
       (Some \<lparr>individual_scores = Some [\<lparr>test_id = Some ''TC-001'', total_score = Some 9\<rparr>]\<rparr>)
       (emptyTestCase\<lparr>tc_id := Some ''TC-001''\<rparr>) ! 5 = ''9.0/10''
   \<and> (\<exists>k. toFixed1 notConsulted 9 = showNat (k div 10) @ ''.'' @ showNat (k mod 10)
          \<and> \<bar>9 * 10 - of_nat k\<bar> \<le> (1 / 2 :: rat))
   \<and> toFixed1 (\<lambda>x. ''1e+21'') (10 ^ 21) = ''1e+21''"
proof -
  let ?e = "\<lparr>test_id = Some ''TC-001'', total_score = Some (9::rat)\<rparr>"
  let ?n = "\<lparr>test_id = Some ''TC-001'', total_score = None :: rat option\<rparr>"
  let ?tc1 = "emptyTestCase\<lparr>tc_id := Some ''TC-001''\<rparr>"
  let ?tc2 = "emptyTestCase\<lparr>tc_id := Some ''TC-002''\<rparr>"
  note C8 = C8_quality_score_cell [where numberToString = notConsulted]
  have i0: "individual_scores \<lparr>individual_scores = None\<rparr> = None" by simp
  have f1: "individual_scores \<lparr>individual_scores = Some [?e]\<rparr> = Some [?e]
            \<and> find (\<lambda>s. test_id s = tc_id ?tc1) [?e] = Some ?e \<and> total_score ?e = Some 9"
    by simp
  have f2: "individual_scores \<lparr>individual_scores = Some [?e]\<rparr> = Some [?e]
            \<and> find (\<lambda>s. test_id s = tc_id ?tc2) [?e] = None"
    by (simp add: emptyTestCase_def)
  have f3: "individual_scores \<lparr>individual_scores = Some [?n]\<rparr> = Some [?n]
            \<and> find (\<lambda>s. test_id s = tc_id ?tc1) [?n] = Some ?n \<and> total_score ?n = None"
    by simp
  have b: "(0 :: rat) < 9 \<and> (9 :: rat) < 10 ^ 21" by simp
  have l: "(10 :: rat) ^ 21 \<le> 10 ^ 21" by simp
  have fx: "toFixed1 notConsulted 9 = ''9.0''" by code_simp
  from C8 [where testCase = ?tc1 and r = "\<lparr>individual_scores = None\<rparr>"] i0
  have 1: "csvRow notConsulted (Some \<lparr>individual_scores = None\<rparr>) ?tc1 ! 5 = ''N/A''"
    by blast
  from C8 [where testCase = ?tc2 and r = "\<lparr>individual_scores = Some [?e]\<rparr>" and entries = "[?e]"] f2
  have 2: "csvRow notConsulted (Some \<lparr>individual_scores = Some [?e]\<rparr>) ?tc2 ! 5 = ''N/A''"
    by blast
  from C8 [where testCase = ?tc1 and r = "\<lparr>individual_scores = Some [?n]\<rparr>" and entries = "[?n]"
      and e = ?n] f3
  have 3: "csvRow notConsulted (Some \<lparr>individual_scores = Some [?n]\<rparr>) ?tc1 ! 5 = ''N/A''"
    by blast
  from C8 [where testCase = ?tc1 and r = "\<lparr>individual_scores = Some [?e]\<rparr>" and entries = "[?e]"
      and e = ?e and x = 9] f1
  have "csvRow notConsulted (Some \<lparr>individual_scores = Some [?e]\<rparr>) ?tc1 ! 5
          = toFixed1 notConsulted 9 @ ''/10''"
    by simp
  then have 4: "csvRow notConsulted (Some \<lparr>individual_scores = Some [?e]\<rparr>) ?tc1 ! 5 = ''9.0/10''"
    unfolding fx by simp
  from C8 [where x = 9] b
  have 5: "\<exists>k. toFixed1 notConsulted 9 = showNat (k div 10) @ ''.'' @ showNat (k mod 10)
          \<and> \<bar>9 * 10 - of_nat k\<bar> \<le> (1 / 2 :: rat)"
    by blast
  from C8_quality_score_cell [where numberToString = "\<lambda>x. ''1e+21''" and x = "10 ^ 21"] l
  have 6: "toFixed1 (\<lambda>x. ''1e+21'') (10 ^ 21) = ''1e+21''" by blast
  from 1 2 3 4 5 6 show ?thesis by blast
qed

text \<open>
  The claim as stated fails on the record parsed from the lines
  \<^verbatim>\<open>TestID,Title,Steps,Expected Result,Priority,Quality Score\<close> and
  \<^verbatim>\<open>TC-001,Login,Open page,OK,High,7.5/10\<close>: its \<^verbatim>\<open>qualityScore\<close> is 7.5, yet the cell
  is \<^verbatim>\<open>N/A\<close> without a report and \<^verbatim>\<open>9.0/10\<close> with a report that scores the id at 9.
\<close>

theorem C8_counterexample:
  "map tc_qualityScore
     (parseCSVToTestCases
       (JSString (''TestID,Title,Steps,Expected Result,Priority,Quality Score'' @ [newline]
          @ ''TC-001,Login,Open page,OK,High,7.5/10''))) = [Some (15 / 2)]
   \<and> handleExport_csv notConsulted None
       (parseCSVToTestCases
         (JSString (''TestID,Title,Steps,Expected Result,Priority,Quality Score'' @ [newline]
          @ ''TC-001,Login,Open page,OK,High,7.5/10'')))
     = Some (''Test ID,Title,Steps,Expected Result,Priority,Quality Score'' @ [newline]
       @ ''TC-001,'' @ [dquote] @ ''Login'' @ [dquote] @ '','' @ [dquote] @ ''Open page'' @ [dquote]
       @ '','' @ [dquote] @ ''OK'' @ [dquote] @ '',High,N/A'' @ [newline])
   \<and> handleExport_csv notConsulted
       (Some \<lparr>individual_scores = Some [\<lparr>test_id = Some ''TC-001'', total_score = Some 9\<rparr>]\<rparr>)
       (parseCSVToTestCases
         (JSString (''TestID,Title,Steps,Expected Result,Priority,Quality Score'' @ [newline]
          @ ''TC-001,Login,Open page,OK,High,7.5/10'')))
     = Some (''Test ID,Title,Steps,Expected Result,Priority,Quality Score'' @ [newline]
       @ ''TC-001,'' @ [dquote] @ ''Login'' @ [dquote] @ '','' @ [dquote] @ ''Open page'' @ [dquote]
       @ '','' @ [dquote] @ ''OK'' @ [dquote] @ '',High,9.0/10'' @ [newline])"
  by code_simp

end
